theory Spec2Isabelle
  imports Complex_Main "HOL-Library.Word" "HOL-Library.Multiset"
begin

section \<open>The read path of the erasure-coded blob store (access/stream\_get.go)\<close>

text \<open>
  This development embeds the functions of \<^verbatim>\<open>access/stream_get.go\<close> in HOL and
  proves properties of them. Machine integers of the decomposition arithmetic are words
  (\<^verbatim>\<open>uint64\<close>, \<open>uint32\<close>); lengths and slice indexes, which the Go code keeps in
  non-negative \<^verbatim>\<open>int\<close>s, are natural numbers.
\<close>

type_synonym uint64 = "64 word"
type_synonym uint32 = "32 word"
type_synonym bytes = "8 word list"

subsection \<open>Location decomposition: genLocationBlobs\<close>

text \<open>
  \<^verbatim>\<open>access.SliceInfo\<close> and \<^verbatim>\<open>access.Location\<close> (declared in api/access; the fields that
  the read path uses) and \<^verbatim>\<open>blobGetArgs\<close>.
\<close>

record SliceInfo =
  si_MinBid :: uint64
  si_Vid :: uint32
  si_Count :: uint32

record Location =
  loc_ClusterID :: uint32
  loc_CodeMode :: "8 word"
  loc_Size :: uint64
  loc_BlobSize :: uint32
  loc_Blobs :: "SliceInfo list"

record blobGetArgs =
  Vid :: uint32
  Bid :: uint64
  BlobSize :: uint64
  Offset :: uint64
  ReadSize :: uint64

text \<open>
  Modelled from the spec: \<^verbatim>\<open>minU64\<close> is declared elsewhere in package access; the spec
  uses it as the minimum of two sizes.
\<close>

definition minU64 :: "uint64 \<Rightarrow> uint64 \<Rightarrow> uint64" where
  "minU64 a b = (if a \<le> b then a else b)"

text \<open>The three \<^verbatim>\<open>fmt.Errorf\<close> results of genLocationBlobs, with the values they print.\<close>

datatype gen_error =
  ErrFileSize uint64 uint64 uint64
  | ErrBlobSize uint64
  | ErrNoEnoughData uint64

text \<open>The local variables that the two nested loops of genLocationBlobs update.\<close>

record gen_state =
  remainSize :: uint64
  blobOffset :: uint64
  idx :: uint64
  blobs :: "blobGetArgs list"

text \<open>
  The inner loop \<^verbatim>\<open>for ii := uint32(0); ii < blob.Count; ii++\<close> over one run of consecutive
  blob ids. The fifth argument is the number of iterations still to run (\<open>Count - ii\<close>).
  \<open>Inl\<close> is the early \<^verbatim>\<open>return blobs, nil\<close>; \<open>Inr\<close> is the state at the loop's exit.
\<close>

fun gen_run ::
  "uint64 \<Rightarrow> uint64 \<Rightarrow> uint64 \<Rightarrow> uint32 \<Rightarrow> nat \<Rightarrow> uint64 \<Rightarrow> gen_state
     \<Rightarrow> blobGetArgs list + gen_state" where
  "gen_run fileSize blobSize firstBlobIdx vid 0 currBlobID s = Inr s"
| "gen_run fileSize blobSize firstBlobIdx vid (Suc k) currBlobID s =
     (if remainSize s \<le> 0 then Inl (blobs s)
      else
        let s1 =
          (if idx s \<ge> firstBlobIdx then
             (let toReadSize = minU64 (remainSize s) (blobSize - blobOffset s);
                  bs = (if toReadSize > 0
                        then blobs s @
                          [\<lparr>Vid = vid, Bid = currBlobID,
                            BlobSize = minU64 (fileSize - idx s * blobSize) blobSize,
                            Offset = blobOffset s, ReadSize = toReadSize\<rparr>]
                        else blobs s)
              in s\<lparr>remainSize := remainSize s - toReadSize, blobOffset := 0, blobs := bs\<rparr>)
           else s)
        in gen_run fileSize blobSize firstBlobIdx vid k (currBlobID + 1) (s1\<lparr>idx := idx s1 + 1\<rparr>))"

text \<open>The outer loop \<^verbatim>\<open>for _, blob := range location.Blobs\<close>.\<close>

fun gen_runs ::
  "uint64 \<Rightarrow> uint64 \<Rightarrow> uint64 \<Rightarrow> SliceInfo list \<Rightarrow> gen_state
     \<Rightarrow> blobGetArgs list + gen_state" where
  "gen_runs fileSize blobSize firstBlobIdx [] s = Inr s"
| "gen_runs fileSize blobSize firstBlobIdx (blob # rest) s =
     (case gen_run fileSize blobSize firstBlobIdx (si_Vid blob) (unat (si_Count blob))
             (si_MinBid blob) s of
        Inl r \<Rightarrow> Inl r
      | Inr s' \<Rightarrow> gen_runs fileSize blobSize firstBlobIdx rest s')"

definition genLocationBlobs ::
  "Location \<Rightarrow> uint64 \<Rightarrow> uint64 \<Rightarrow> gen_error + blobGetArgs list" where
  "genLocationBlobs location readSize offset =
     (if offset + readSize > loc_Size location
      then Inl (ErrFileSize (loc_Size location) readSize offset)
      else
        let blobSize = (ucast (loc_BlobSize location) :: uint64) in
        if blobSize \<le> 0 then Inl (ErrBlobSize blobSize)
        else
          let firstBlobIdx = offset div blobSize;
              blobOffset0 = offset mod blobSize
          in case gen_runs (loc_Size location) blobSize firstBlobIdx (loc_Blobs location)
                    \<lparr>remainSize = readSize, blobOffset = blobOffset0, idx = 0, blobs = []\<rparr> of
               Inl r \<Rightarrow> Inr r
             | Inr s \<Rightarrow>
                 if remainSize s > 0 then Inl (ErrNoEnoughData (remainSize s))
                 else Inr (blobs s))"

text \<open>
  A location whose two runs hold \<open>2^32 + 2\<close> blobs of \<open>2^32 - 1\<close> bytes, with total size 0;
  it is read below at offset \<open>2^64 - 1\<close>.
\<close>

definition overflow_location :: Location where
  "overflow_location =
     \<lparr>loc_ClusterID = 1, loc_CodeMode = 1, loc_Size = 0, loc_BlobSize = 4294967295,
      loc_Blobs = [\<lparr>si_MinBid = 0, si_Vid = 7, si_Count = 4294967295\<rparr>,
                   \<lparr>si_MinBid = 4294967295, si_Vid = 7, si_Count = 3\<rparr>]\<rparr>"

subsection \<open>Collaborators of the read path\<close>

type_synonym ClusterID = uint32
type_synonym VolID = uint32
type_synonym BlobID = uint64
type_synonym DiskID = uint32
type_synonym Vuid = uint64

text \<open>
  \<^verbatim>\<open>codemode.Tactic\<close> (data, parity and local shard counts), \<^verbatim>\<open>ec.BufferSizes\<close>,
  \<^verbatim>\<open>controller.Unit\<close>, \<^verbatim>\<open>controller.VolumePhy\<close> and \<^verbatim>\<open>controller.HostIDC\<close> are
  declared outside access/stream\_get.go; the records hold the fields that the read path
  uses.
\<close>

record Tactic =
  tactic_N :: nat
  tactic_M :: nat
  tactic_L :: nat

record BufferSizes =
  ShardSize :: nat
  DataSize :: nat
  ECDataSize :: nat

record Unit =
  unit_Vuid :: Vuid
  unit_DiskID :: DiskID
  unit_Host :: string

record VolumePhy =
  vol_Vid :: VolID
  vol_CodeMode :: "8 word"
  vol_Units :: "Unit list"

record HostIDC =
  hi_Host :: string
  hi_IDC :: string
  hi_Punished :: bool

record sortedVuid =
  sv_index :: nat
  sv_vuid :: Vuid
  sv_diskID :: DiskID
  sv_host :: string

text \<open>\<^verbatim>\<open>blobnode.RangeGetShardArgs\<close>, flattened.\<close>

record RangeGetShardArgs =
  arg_DiskID :: DiskID
  arg_Vuid :: Vuid
  arg_Bid :: BlobID
  arg_Offset :: nat
  arg_Size :: nat

text \<open>
  Modelled from the spec: the classified error kinds that the shard transport surfaces
  (section 4.1). \<^verbatim>\<open>rpc.DetectStatusCode\<close> and \<^verbatim>\<open>errorTimeout\<close>, which classify a transport
  error in the source, are not part of the excerpt.
\<close>

datatype TransportError =
  Overload | DiskBroken | VuidReadonly | DiskNotFound | VuidNotFound | Timeout | Other

definition errorTimeout :: "TransportError \<Rightarrow> bool" where
  "errorTimeout e = (e = Timeout)"

text \<open>The errors that the functions of the read path return.\<close>

datatype error =
  ErrIllegalArguments
  | ErrNeedReconstructRead
  | ErrCanceledReadShard
  | ErrTransport TransportError
  | ErrPunishedDisk DiskID string
  | ErrGetShardOn DiskID string TransportError
  | ErrBrokenBlob ClusterID VolID BlobID
  | ErrNoEnoughDataToRead uint64
  | ErrWriteToResponse
  | ErrGetVolume
  | ErrGetService
  | ErrBufferSizes
  | ErrRangeBuffer
  | ErrHystrix
  | ErrAlloc
  | ErrPanic

text \<open>
  A byte slice: the identity of its backing buffer in the memory pool (\<open>None\<close> when it
  does not come from the pool) and its contents. The \<^verbatim>\<open>nil\<close> slice has no identity and no
  contents.
\<close>

record buffer =
  buf_id :: "nat option"
  buf_data :: bytes

definition nil_buffer :: buffer where
  "nil_buffer = \<lparr>buf_id = None, buf_data = []\<rparr>"

text \<open>
  The observable effects of the read path, in the order in which they happen: calls of
  the storage node client, of the volume resolver, of the disk router and of the encoder,
  the operations on the two signalling channels of readOneBlob, and writes to the caller.
\<close>

datatype event =
  EvRangeGet nat string RangeGetShardArgs
  | EvGetVolume ClusterID VolID bool
  | EvGetDiskHost DiskID
  | EvGetServiceController ClusterID
  | EvPunishDisk ClusterID DiskID string string
  | EvPunishDiskWith ClusterID DiskID string string
  | EvReconstruct "nat list"
  | EvCloseStop
  | EvNext
  | EvWrite bytes

text \<open>
  The state that the read path threads through: the log of effects, the number of
  buffers that the memory pool has handed out (buffer ids \<open>0 ..< allocated\<close>), the ids of
  the buffers put back (latest first), and the number of draws made from the random source.
\<close>

record World =
  events :: "event list"
  allocated :: nat
  returned :: "nat list"
  draws :: nat

definition emit :: "event \<Rightarrow> World \<Rightarrow> World" where
  "emit e w = w\<lparr>events := events w @ [e]\<rparr>"

text \<open>
  The handler \<^verbatim>\<open>h\<close> with its injected collaborators. Each collaborator is a function of
  the log of effects so far, so that its answers may change over time:
  the storage node client, \<^verbatim>\<open>h.getVolume\<close> (\<open>None\<close> is an error), the service controller's
  \<^verbatim>\<open>GetDiskHost\<close> and \<^verbatim>\<open>GetServiceController\<close>, the tactic of a code mode, the
  \<^verbatim>\<open>ReconstructData\<close> of the encoder of a code mode (\<open>None\<close> is an error, \<open>Some\<close> the
  contents of the shards afterwards),
  \<^verbatim>\<open>ec.GetBufferSizes\<close> (\<open>None\<close> is an error), the circuit breaker around a shard read,
  the memory pool (whether an allocation fails, and the stale byte that fills a buffer
  handed out), the caller's writer, and the random source of \<^verbatim>\<open>rand.Shuffle\<close>.
\<close>

record Handler =
  IDC :: string
  MinReadShardsX :: nat
  rangeGetShard :: "event list \<Rightarrow> string \<Rightarrow> RangeGetShardArgs \<Rightarrow> TransportError + bytes"
  getVolumePhy :: "event list \<Rightarrow> ClusterID \<Rightarrow> VolID \<Rightarrow> bool \<Rightarrow> VolumePhy option"
  getDiskHost :: "event list \<Rightarrow> DiskID \<Rightarrow> HostIDC option"
  getServiceController :: "event list \<Rightarrow> ClusterID \<Rightarrow> bool"
  codeModeTactic :: "8 word \<Rightarrow> Tactic"
  reconstructData :: "8 word \<Rightarrow> bytes list \<Rightarrow> nat list \<Rightarrow> bytes list option"
  getBufferSizes :: "nat \<Rightarrow> Tactic \<Rightarrow> BufferSizes option"
  hystrixRejects :: "event list \<Rightarrow> bool"
  allocFails :: "nat \<Rightarrow> nat \<Rightarrow> bool"
  poolGarbage :: "nat \<Rightarrow> 8 word"
  writeFails :: "event list \<Rightarrow> bytes \<Rightarrow> bool"
  randIntn :: "nat \<Rightarrow> nat \<Rightarrow> nat"

subsection \<open>The memory pool\<close>

text \<open>
  Modelled from the spec: the buffer pool of section 4.9 (\<^verbatim>\<open>resourcepool.MemPool\<close> is not
  part of the excerpt). \<open>Alloc\<close> yields a buffer of exactly the requested size, or
  fails; \<open>Put\<close> returns a buffer; \<open>Zero\<close> fills a buffer with zero bytes.
\<close>

definition Alloc :: "Handler \<Rightarrow> nat \<Rightarrow> World \<Rightarrow> buffer option \<times> World" where
  "Alloc h n w =
     (if allocFails h (allocated w) n then (None, w)
      else (Some \<lparr>buf_id = Some (allocated w),
                   buf_data = replicate n (poolGarbage h (allocated w))\<rparr>,
            w\<lparr>allocated := Suc (allocated w)\<rparr>))"

definition Put :: "buffer \<Rightarrow> World \<Rightarrow> World" where
  "Put b w = (case buf_id b of None \<Rightarrow> w | Some i \<Rightarrow> w\<lparr>returned := i # returned w\<rparr>)"

definition Zero :: "buffer \<Rightarrow> buffer" where
  "Zero b = b\<lparr>buf_data := replicate (length (buf_data b)) 0\<rparr>"

subsection \<open>Retry policies\<close>

text \<open>
  Modelled from the spec: package util/retry is not part of the excerpt. Section 4.1
  describes the policy of the transport: at most so many attempts (the backoff between
  them is a delay and has no counterpart here), where an attempt may interrupt the loop.
  \<open>retryOn n f\<close> is \<^verbatim>\<open>retry.ExponentialBackoff(n, _).On(f)\<close>: \<open>f\<close> is called until it
  returns no error, at most \<open>n\<close> times. \<open>RuptOn n f\<close> is
  \<^verbatim>\<open>retry.ExponentialBackoff(n, _).RuptOn(f)\<close>: as \<open>retryOn\<close>, but an attempt that returns
  \<open>True\<close> ends the loop with its error.
\<close>

fun retry_loop :: "nat \<Rightarrow> ('s \<Rightarrow> 'e option \<times> 's) \<Rightarrow> 'e option \<Rightarrow> 's \<Rightarrow> 'e option \<times> 's" where
  "retry_loop 0 f lastErr s = (lastErr, s)"
| "retry_loop (Suc n) f lastErr s =
     (case f s of
        (None, s') \<Rightarrow> (None, s')
      | (Some e, s') \<Rightarrow> retry_loop n f (Some e) s')"

definition retryOn :: "nat \<Rightarrow> ('s \<Rightarrow> 'e option \<times> 's) \<Rightarrow> 's \<Rightarrow> 'e option \<times> 's" where
  "retryOn attempts f s = retry_loop attempts f None s"

fun rupt_loop ::
  "nat \<Rightarrow> ('s \<Rightarrow> (bool \<times> 'e option) \<times> 's) \<Rightarrow> 'e option \<Rightarrow> 's \<Rightarrow> 'e option \<times> 's" where
  "rupt_loop 0 f lastErr s = (lastErr, s)"
| "rupt_loop (Suc n) f lastErr s =
     (case f s of
        ((interrupted, None), s') \<Rightarrow> (None, s')
      | ((interrupted, Some e), s') \<Rightarrow>
          if interrupted then (Some e, s') else rupt_loop n f (Some e) s')"

definition RuptOn ::
  "nat \<Rightarrow> ('s \<Rightarrow> (bool \<times> 'e option) \<times> 's) \<Rightarrow> 's \<Rightarrow> 'e option \<times> 's" where
  "RuptOn attempts f s = rupt_loop attempts f None s"

subsection \<open>Locality sorting: distance and genSortedVuidByIDC\<close>

fun distance :: "string \<Rightarrow> string \<Rightarrow> bool \<Rightarrow> nat" where
  "distance idc1 idc2 punished =
     (if punished then (if idc1 = idc2 then 2 else 3)
      else if idc1 = idc2 then 0 else 1)"

text \<open>
  The closure that genSortedVuidByIDC retries: one call of \<^verbatim>\<open>GetDiskHost\<close>, which on
  success stores the answer in the captured variable \<^verbatim>\<open>hostIDC\<close>.
\<close>

definition getDiskHostCall ::
  "Handler \<Rightarrow> DiskID \<Rightarrow> HostIDC option \<times> World \<Rightarrow> error option \<times> (HostIDC option \<times> World)" where
  "getDiskHostCall h disk s =
     (case s of (hostIDC, w) \<Rightarrow>
        (case getDiskHost h (events w) disk of
           None \<Rightarrow> (Some ErrGetService, (hostIDC, emit (EvGetDiskHost disk) w))
         | Some hi \<Rightarrow> (None, (Some hi, emit (EvGetDiskHost disk) w))))"

text \<open>
  The first loop of genSortedVuidByIDC, \<^verbatim>\<open>for idx, phy := range vuidPhys\<close>: every unit
  whose disk resolves within two attempts is entered into \<^verbatim>\<open>sortMap\<close> under its distance.
  The result lists the entries (distance, sorted vuid) in the order of insertion; the
  second argument is the running \<^verbatim>\<open>idx\<close>.
\<close>

fun resolveUnits ::
  "Handler \<Rightarrow> nat \<Rightarrow> Unit list \<Rightarrow> World \<Rightarrow> (nat \<times> sortedVuid) list \<times> World" where
  "resolveUnits h i [] w = ([], w)"
| "resolveUnits h i (phy # rest) w =
     (case retryOn 2 (getDiskHostCall h (unit_DiskID phy)) (None, w) of
        (None, (Some hostIDC, w1)) \<Rightarrow>
          (let dis = distance (IDC h) (hi_IDC hostIDC) (hi_Punished hostIDC);
               (es, w2) = resolveUnits h (Suc i) rest w1
           in ((dis, \<lparr>sv_index = i, sv_vuid = unit_Vuid phy, sv_diskID = unit_DiskID phy,
                      sv_host = unit_Host phy\<rparr>) # es, w2))
      | (_, (_, w1)) \<Rightarrow> resolveUnits h (Suc i) rest w1)"

text \<open>
  \<^verbatim>\<open>rand.Shuffle(n, swap)\<close> of the Go library: for \<open>i\<close> from \<open>n - 1\<close> down to 1, swap the
  elements at \<open>i\<close> and at a random \<open>j\<close> in \<open>0 .. i\<close>.
\<close>

fun shuffle_loop :: "Handler \<Rightarrow> nat \<Rightarrow> 'a list \<Rightarrow> World \<Rightarrow> 'a list \<times> World" where
  "shuffle_loop h 0 ids w = (ids, w)"
| "shuffle_loop h (Suc i) ids w =
     (let j = randIntn h (draws w) (Suc (Suc i)) mod (Suc (Suc i))
      in shuffle_loop h i (ids[Suc i := ids ! j, j := ids ! (Suc i)])
           (w\<lparr>draws := Suc (draws w)\<rparr>))"

definition Shuffle :: "Handler \<Rightarrow> 'a list \<Rightarrow> World \<Rightarrow> 'a list \<times> World" where
  "Shuffle h ids w = shuffle_loop h (length ids - 1) ids w"

text \<open>
  The second loop, \<^verbatim>\<open>for _, dis := range keys\<close> over the sorted keys of \<^verbatim>\<open>sortMap\<close>: the
  units of each distance are shuffled and appended.
\<close>

fun shuffleGroups ::
  "Handler \<Rightarrow> (nat \<times> sortedVuid) list \<Rightarrow> nat list \<Rightarrow> World \<Rightarrow> sortedVuid list \<times> World" where
  "shuffleGroups h es [] w = ([], w)"
| "shuffleGroups h es (dis # keys) w =
     (let (ids, w1) = Shuffle h (map snd (filter (\<lambda>e. fst e = dis) es)) w;
          (vuids, w2) = shuffleGroups h es keys w1
      in (ids @ vuids, w2))"

definition genSortedVuidByIDC :: "Handler \<Rightarrow> Unit list \<Rightarrow> World \<Rightarrow> sortedVuid list \<times> World" where
  "genSortedVuidByIDC h vuidPhys w =
     (let (es, w1) = resolveUnits h 0 vuidPhys w;
          keys = sort (remdups (map fst es))
      in shuffleGroups h es keys w1)"

subsection \<open>Geometry: emptyDataShardIndexes\<close>

text \<open>
  The set that emptyDataShardIndexes returns, as the list of its members. The division
  by a zero shard size, on which the Go code panics, is \<open>None\<close>.
\<close>

definition emptyDataShardIndexes :: "BufferSizes \<Rightarrow> nat list option" where
  "emptyDataShardIndexes sizes =
     (if ShardSize sizes = 0 then None
      else
        let firstEmptyIdx = (DataSize sizes + ShardSize sizes - 1) div ShardSize sizes;
            n = ECDataSize sizes div ShardSize sizes
        in if firstEmptyIdx \<ge> n then Some [] else Some [firstEmptyIdx ..< n])"

subsection \<open>The shard transport: getOneShardFromHost\<close>

text \<open>
  The variables that the retried closure of getOneShardFromHost captures and updates:
  the target (\<^verbatim>\<open>host\<close>, \<^verbatim>\<open>diskID\<close>, \<^verbatim>\<open>args\<close>), the result \<^verbatim>\<open>rbody\<close>, and the world.
  \<open>sc_attempt\<close> counts the calls of the closure; it only serves to ask whether the
  cancel channel is closed at that moment.
\<close>

record shard_call =
  sc_host :: string
  sc_diskID :: DiskID
  sc_args :: RangeGetShardArgs
  sc_rbody :: "bytes option"
  sc_attempt :: nat
  sc_world :: World

text \<open>
  The code after the \<^verbatim>\<open>switch\<close>: a timeout punishes the disk (threshold) and interrupts;
  any other error is wrapped and retried.
\<close>

definition afterSwitch ::
  "ClusterID \<Rightarrow> TransportError \<Rightarrow> shard_call \<Rightarrow> (bool \<times> error option) \<times> shard_call" where
  "afterSwitch clusterID err s =
     (if errorTimeout err
      then ((True, Some (ErrTransport err)),
            s\<lparr>sc_world := emit (EvPunishDiskWith clusterID (sc_diskID s) (sc_host s) ''Timeout'')
                             (sc_world s)\<rparr>)
      else ((False, Some (ErrGetShardOn (sc_diskID s) (sc_host s) err)), s))"

text \<open>
  The case \<^verbatim>\<open>CodeDiskNotFound, CodeVuidNotFound\<close>: the volume is resolved again without
  the cache; when the unit at \<open>index\<close> now lives on another disk that resolves and is not
  punished, the target is replaced and the attempt is retried; otherwise the disk is
  punished (threshold) and control falls out of the \<^verbatim>\<open>switch\<close>. An \<open>index\<close> beyond the
  units of the refreshed volume, on which the Go code panics, ends the call with
  \<open>ErrPanic\<close>.
\<close>

definition onNotFound ::
  "Handler \<Rightarrow> nat \<Rightarrow> ClusterID \<Rightarrow> VolID \<Rightarrow> TransportError \<Rightarrow> shard_call
     \<Rightarrow> (bool \<times> error option) \<times> shard_call" where
  "onNotFound h index clusterID vid err s =
     (let w1 = emit (EvGetVolume clusterID vid False) (sc_world s) in
      case getVolumePhy h (events (sc_world s)) clusterID vid False of
        None \<Rightarrow> ((False, Some (ErrTransport err)), s\<lparr>sc_world := w1\<rparr>)
      | Some latestVolume \<Rightarrow>
          if index \<ge> length (vol_Units latestVolume)
          then ((True, Some ErrPanic), s\<lparr>sc_world := w1\<rparr>)
          else
            let newUnit = vol_Units latestVolume ! index;
                newDiskID = unit_DiskID newUnit;
                w2 = (if newDiskID \<noteq> sc_diskID s then emit (EvGetDiskHost newDiskID) w1 else w1);
                hi = (if newDiskID \<noteq> sc_diskID s then getDiskHost h (events w1) newDiskID
                      else None)
            in case hi of
                 Some hostIDC \<Rightarrow>
                   if \<not> hi_Punished hostIDC
                   then ((False, Some (ErrTransport err)),
                         s\<lparr>sc_host := hi_Host hostIDC, sc_diskID := newDiskID,
                           sc_args := (sc_args s)\<lparr>arg_DiskID := newDiskID,
                                                  arg_Vuid := unit_Vuid newUnit\<rparr>,
                           sc_world := w2\<rparr>)
                   else afterSwitch clusterID err
                          (s\<lparr>sc_world := emit (EvPunishDiskWith clusterID (sc_diskID s)
                                                (sc_host s) ''NotFound'') w2\<rparr>)
               | None \<Rightarrow>
                   afterSwitch clusterID err
                     (s\<lparr>sc_world := emit (EvPunishDiskWith clusterID (sc_diskID s)
                                           (sc_host s) ''NotFound'') w2\<rparr>))"

text \<open>
  One call of the closure passed to \<^verbatim>\<open>RuptOn\<close>. The cancel channel is \<open>None\<close> for the
  \<^verbatim>\<open>nil\<close> channel; otherwise it tells, for each attempt, whether the channel is closed
  when that attempt starts.
\<close>

definition getShardAttempt ::
  "Handler \<Rightarrow> nat \<Rightarrow> ClusterID \<Rightarrow> VolID \<Rightarrow> (nat \<Rightarrow> bool) option \<Rightarrow> shard_call
     \<Rightarrow> (bool \<times> error option) \<times> shard_call" where
  "getShardAttempt h index clusterID vid cancelChan s0 =
     (let s = s0\<lparr>sc_attempt := Suc (sc_attempt s0)\<rparr> in
      if (case cancelChan of None \<Rightarrow> False | Some isClosed \<Rightarrow> isClosed (sc_attempt s0))
      then ((True, Some ErrCanceledReadShard), s)
      else
        let w1 = emit (EvRangeGet index (sc_host s) (sc_args s)) (sc_world s) in
        case rangeGetShard h (events (sc_world s)) (sc_host s) (sc_args s) of
          Inr body \<Rightarrow> ((True, None), s\<lparr>sc_rbody := Some body, sc_world := w1\<rparr>)
        | Inl err \<Rightarrow>
            (case err of
               Overload \<Rightarrow> ((True, Some (ErrTransport err)), s\<lparr>sc_world := w1\<rparr>)
             | DiskBroken \<Rightarrow>
                 ((True, Some (ErrPunishedDisk (sc_diskID s) (sc_host s))),
                  s\<lparr>sc_world := emit (EvPunishDisk clusterID (sc_diskID s) (sc_host s)
                                       ''BrokenOrRO'') w1\<rparr>)
             | VuidReadonly \<Rightarrow>
                 ((True, Some (ErrPunishedDisk (sc_diskID s) (sc_host s))),
                  s\<lparr>sc_world := emit (EvPunishDisk clusterID (sc_diskID s) (sc_host s)
                                       ''BrokenOrRO'') w1\<rparr>)
             | DiskNotFound \<Rightarrow> onNotFound h index clusterID vid err (s\<lparr>sc_world := w1\<rparr>)
             | VuidNotFound \<Rightarrow> onNotFound h index clusterID vid err (s\<lparr>sc_world := w1\<rparr>)
             | Timeout \<Rightarrow> afterSwitch clusterID err (s\<lparr>sc_world := w1\<rparr>)
             | Other \<Rightarrow> afterSwitch clusterID err (s\<lparr>sc_world := w1\<rparr>)))"

definition getOneShardFromHost ::
  "Handler \<Rightarrow> string \<Rightarrow> DiskID \<Rightarrow> RangeGetShardArgs \<Rightarrow> nat \<Rightarrow> ClusterID \<Rightarrow> VolID
     \<Rightarrow> (nat \<Rightarrow> bool) option \<Rightarrow> World \<Rightarrow> (bytes option \<times> error option) \<times> World" where
  "getOneShardFromHost h host diskID args index clusterID vid cancelChan w =
     (case RuptOn 3 (getShardAttempt h index clusterID vid cancelChan)
             \<lparr>sc_host = host, sc_diskID = diskID, sc_args = args, sc_rbody = None,
              sc_attempt = 0, sc_world = w\<rparr> of
        (rerr, s) \<Rightarrow> ((sc_rbody s, rerr), sc_world s))"

subsection \<open>One shard: readOneShard\<close>

record shardData =
  sd_index :: nat
  sd_status :: bool
  sd_buffer :: buffer

text \<open>
  \<^verbatim>\<open>io.ReadFull(body, buf)\<close> of the Go library fills \<open>buf\<close> completely from the body, and
  fails when the body holds fewer bytes than \<open>buf\<close>.
\<close>

definition ReadFull :: "bytes \<Rightarrow> buffer \<Rightarrow> buffer option" where
  "ReadFull body buf =
     (if length body < length (buf_data buf) then None
      else Some (buf\<lparr>buf_data := take (length (buf_data buf)) body\<rparr>))"

text \<open>
  readOneShard. The circuit breaker \<^verbatim>\<open>hystrix.Do\<close> either rejects the command with an
  error of its own or runs it. A \<^verbatim>\<open>nil\<close> body without an error, on which the deferred
  \<^verbatim>\<open>body.Close()\<close> would panic, is never returned by getOneShardFromHost; the
  case reports a failed shard.
\<close>

definition readOneShard ::
  "Handler \<Rightarrow> ClusterID \<Rightarrow> VolID \<Rightarrow> nat \<Rightarrow> blobGetArgs \<Rightarrow> sortedVuid \<Rightarrow> (nat \<Rightarrow> bool)
     \<Rightarrow> World \<Rightarrow> shardData \<times> World" where
  "readOneShard h clusterID vid shardSize blob vuid stopChan w =
     (let shardResult = \<lparr>sd_index = sv_index vuid, sd_status = False, sd_buffer = nil_buffer\<rparr>;
          args = \<lparr>arg_DiskID = sv_diskID vuid, arg_Vuid = sv_vuid vuid, arg_Bid = Bid blob,
                  arg_Offset = 0, arg_Size = shardSize\<rparr>
      in if hystrixRejects h (events w) then (shardResult, w)
         else
           case getOneShardFromHost h (sv_host vuid) (sv_diskID vuid) args (sv_index vuid)
                  clusterID vid (Some stopChan) w of
             ((Some body, None), w1) \<Rightarrow>
               (case Alloc h shardSize w1 of
                  (None, w2) \<Rightarrow> (shardResult, w2)
                | (Some buf, w2) \<Rightarrow>
                    (case ReadFull body buf of
                       None \<Rightarrow> (shardResult, Put buf w2)
                     | Some buf' \<Rightarrow>
                         (shardResult\<lparr>sd_status := True, sd_buffer := buf'\<rparr>, w2)))
           | (_, w1) \<Rightarrow> (shardResult, w1))"

subsection \<open>One blob: readOneBlob\<close>

text \<open>
  The map \<^verbatim>\<open>received\<close> is an association list with distinct keys; \<open>map_set\<close> is the
  assignment \<^verbatim>\<open>received[k] = v\<close>.
\<close>

fun map_set :: "nat \<Rightarrow> bool \<Rightarrow> (nat \<times> bool) list \<Rightarrow> (nat \<times> bool) list" where
  "map_set k v [] = [(k, v)]"
| "map_set k v (e # r) = (if fst e = k then (k, v) # r else e # map_set k v r)"

text \<open>
  The state of the blob reader: the map \<^verbatim>\<open>received\<close>, the shard matrix, the shard reads
  that have been launched and whose outcome has not yet been taken from the channel, the
  units that the launching goroutine has not yet started (it starts one for each token on
  \<^verbatim>\<open>nextChan\<close>), and the world.
\<close>

record blob_state =
  rb_received :: "(nat \<times> bool) list"
  rb_shards :: "buffer list"
  rb_inflight :: "sortedVuid list"
  rb_waiting :: "sortedVuid list"
  rb_world :: World

text \<open>
  How the loop over the shard channel ends: with \<^verbatim>\<open>reconstructed = true\<close>; because more
  than M shards are bad; because every sorted unit has been received; because the channel
  was closed; or not at all, with the reader blocked on the channel while no read is in
  flight and the launcher waits for a token. \<open>Panicked\<close> is an index out of range.
\<close>

datatype blob_exit = Reconstructed | NotEnough | Exhausted | PipeClosed | Blocked | Panicked

definition closeStop :: "blob_state \<Rightarrow> blob_state" where
  "closeStop st = st\<lparr>rb_world := emit EvCloseStop (rb_world st)\<rparr>"

text \<open>\<^verbatim>\<open>nextChan <- struct{}{}\<close>: the launcher starts the next unit, if one is left.\<close>

definition sendNext :: "blob_state \<Rightarrow> blob_state" where
  "sendNext st =
     (let st1 = st\<lparr>rb_world := emit EvNext (rb_world st)\<rparr> in
      case rb_waiting st1 of
        [] \<Rightarrow> st1
      | v # vs \<Rightarrow> st1\<lparr>rb_inflight := rb_inflight st1 @ [v], rb_waiting := vs\<rparr>)"

text \<open>The contents of the shards after a successful \<^verbatim>\<open>ReconstructData\<close>.\<close>

definition setData :: "buffer list \<Rightarrow> bytes list \<Rightarrow> buffer list" where
  "setData bufs ds =
     map (\<lambda>i. if i < length ds then (bufs ! i)\<lparr>buf_data := ds ! i\<rparr> else bufs ! i)
       [0 ..< length bufs]"

text \<open>
  The body of the loop \<^verbatim>\<open>for shard := range shardPipe\<close> for one shard outcome.
  \<open>None\<close> continues the loop.
\<close>

definition onShard ::
  "Handler \<Rightarrow> 8 word \<Rightarrow> nat \<Rightarrow> shardData \<Rightarrow> blob_state \<Rightarrow> blob_exit option \<times> blob_state" where
  "onShard h codeMode nSorted shard st0 =
     (let tactic = codeModeTactic h codeMode;
          dataN = tactic_N tactic;
          dataParityN = tactic_N tactic + tactic_M tactic
      in if sd_index shard \<ge> length (rb_shards st0) then (Some Panicked, st0)
      else
        let st1 = (if sd_status shard
                   then st0\<lparr>rb_shards := (rb_shards st0)[sd_index shard := sd_buffer shard],
                            rb_world := Put (rb_shards st0 ! sd_index shard) (rb_world st0)\<rparr>
                   else st0);
            recv = map_set (sd_index shard) (sd_status shard) (rb_received st1);
            st = st1\<lparr>rb_received := recv\<rparr>
        in if length recv < dataN then (None, st)
        else
          let badData = filter (\<lambda>i. map_of recv i \<noteq> Some True) [0 ..< dataN] in
          if badData = [] then (Some Reconstructed, closeStop st)
          else
            let badIdx = badData @ filter (\<lambda>i. map_of recv i \<noteq> Some True) [dataN ..< dataParityN];
                badShards = length (filter (\<lambda>e. \<not> snd e) recv)
            in if badShards > dataParityN - dataN then (Some NotEnough, closeStop st)
            else
              let ready = (length recv \<ge> dataN + badShards);
                  st2 = (if ready then st\<lparr>rb_world := emit (EvReconstruct badIdx) (rb_world st)\<rparr>
                         else st);
                  rec = (if ready then reconstructData h codeMode (map buf_data (rb_shards st)) badIdx
                         else None)
              in case rec of
                   Some ds \<Rightarrow>
                     (Some Reconstructed, closeStop (st2\<lparr>rb_shards := setData (rb_shards st2) ds\<rparr>))
                 | None \<Rightarrow>
                     if length recv \<ge> nSorted then (Some Exhausted, closeStop st2)
                     else (None, sendNext st2))"

text \<open>
  The loop \<^verbatim>\<open>for shard := range shardPipe\<close>. The shard reads in flight run concurrently
  in the source; here the outcome of a read is computed when the reader takes it from the
  channel, and the schedule \<open>sched\<close> tells, at each iteration, which of the reads in
  flight delivers next (the first one when the schedule is used up). No read that
  the loop receives sees the stop channel closed, since the loop ends when it closes it.
\<close>

function blob_loop ::
  "Handler \<Rightarrow> ClusterID \<Rightarrow> VolID \<Rightarrow> 8 word \<Rightarrow> nat \<Rightarrow> blobGetArgs \<Rightarrow> nat \<Rightarrow> nat list
     \<Rightarrow> blob_state \<Rightarrow> blob_exit \<times> blob_state" where
  "blob_loop h clusterID vid codeMode shardSize blob nSorted sched st =
     (if rb_inflight st = []
      then (if rb_waiting st = [] then (PipeClosed, st) else (Blocked, st))
      else
        let k = (case sched of [] \<Rightarrow> 0 | c # _ \<Rightarrow> c mod length (rb_inflight st));
            (shard, w1) = readOneShard h clusterID vid shardSize blob (rb_inflight st ! k)
                            (\<lambda>_. False) (rb_world st);
            st1 = st\<lparr>rb_inflight := take k (rb_inflight st) @ drop (Suc k) (rb_inflight st),
                     rb_world := w1\<rparr>
        in case onShard h codeMode nSorted shard st1 of
             (Some ex, st2) \<Rightarrow> (ex, st2)
           | (None, st2) \<Rightarrow> blob_loop h clusterID vid codeMode shardSize blob nSorted (tl sched) st2)"
  by pat_completeness auto
termination
proof (relation "measure (\<lambda>(h, clusterID, vid, codeMode, shardSize, blob, nSorted, sched, st).
          2 * length (rb_waiting st) + length (rb_inflight st))", goal_cases)
  case 1
  show ?case by simp
next
  case (2 h clusterID vid codeMode shardSize blob nSorted sched st k p shard w1 st1 r st2)
  have k: "k < length (rb_inflight st)"
    using 2(1,2) by (cases sched) (auto simp: neq_Nil_conv)
  have "length (rb_inflight st1) < length (rb_inflight st)" "rb_waiting st1 = rb_waiting st"
    using 2(5) k by auto
  moreover have "2 * length (rb_waiting st2) + length (rb_inflight st2)
     \<le> 2 * length (rb_waiting st1) + length (rb_inflight st1)"
    using 2(6,7)
    by (auto simp: onShard_def Let_def sendNext_def closeStop_def
           split: if_splits option.splits list.splits)
  ultimately show ?case by simp
qed

text \<open>
  The goroutine that readOneBlob starts after its loop: it takes the outcomes of the reads
  still in flight from the channel and puts their buffers back. A read in flight sees the
  stop channel closed from some attempt on, which \<open>late\<close> gives for each unit index.
\<close>

fun drain ::
  "Handler \<Rightarrow> ClusterID \<Rightarrow> VolID \<Rightarrow> nat \<Rightarrow> blobGetArgs \<Rightarrow> (nat \<Rightarrow> nat) \<Rightarrow> sortedVuid list
     \<Rightarrow> World \<Rightarrow> World" where
  "drain h clusterID vid shardSize blob late [] w = w"
| "drain h clusterID vid shardSize blob late (vuid # rest) w =
     (let (shard, w1) = readOneShard h clusterID vid shardSize blob vuid
                          (\<lambda>a. late (sv_index vuid) \<le> a) w
      in drain h clusterID vid shardSize blob late rest
           (if sd_status shard then Put (sd_buffer shard) w1 else w1))"

text \<open>What a call does: it returns a value, blocks forever, or panics.\<close>

datatype 'a outcome = Returns 'a | Hangs | Panics

text \<open>
  readOneBlob. Besides the error it returns the shard matrix, which the Go code updates
  in place. \<open>sched\<close> and \<open>late\<close> are the order of delivery and the lateness described
  above.
\<close>

definition readOneBlob ::
  "Handler \<Rightarrow> ClusterID \<Rightarrow> VolID \<Rightarrow> 8 word \<Rightarrow> blobGetArgs \<Rightarrow> sortedVuid list \<Rightarrow> buffer list
     \<Rightarrow> nat list \<Rightarrow> (nat \<Rightarrow> nat) \<Rightarrow> World \<Rightarrow> error option outcome \<times> buffer list \<times> World" where
  "readOneBlob h clusterID vid codeMode blob sortedVuids shards0 sched late w =
     (let tactic = codeModeTactic h codeMode in
      case getBufferSizes h (unat (BlobSize blob)) tactic of
        None \<Rightarrow> (Returns (Some ErrBufferSizes), shards0, w)
      | Some sizes \<Rightarrow>
          (case emptyDataShardIndexes sizes of
             None \<Rightarrow> (Panics, shards0, w)
           | Some empties \<Rightarrow>
               if shards0 = [] \<or> list_ex (\<lambda>i. i \<ge> length shards0) empties
               then (Panics, shards0, w)
               else
                 let dataN = tactic_N tactic;
                     minShardsRead = min (dataN + MinReadShardsX h) (length sortedVuids);
                     shardSize = length (buf_data (shards0 ! 0));
                     st0 = \<lparr>rb_received = fold (\<lambda>i r. map_set i True r) empties [],
                            rb_shards = fold (\<lambda>i bs. bs[i := Zero (bs ! i)]) empties shards0,
                            rb_inflight = filter (\<lambda>v. sv_index v \<notin> set empties)
                                            (take minShardsRead sortedVuids),
                            rb_waiting = filter (\<lambda>v. sv_index v \<notin> set empties)
                                           (drop minShardsRead sortedVuids),
                            rb_world = w\<rparr>;
                     (ex, st) = blob_loop h clusterID vid codeMode shardSize blob
                                  (length sortedVuids) sched st0
                 in case ex of
                      Blocked \<Rightarrow> (Hangs, rb_shards st, rb_world st)
                    | Panicked \<Rightarrow> (Panics, rb_shards st, rb_world st)
                    | _ \<Rightarrow>
                        (Returns (if ex = Reconstructed then None
                                  else Some (ErrBrokenBlob clusterID (Vid blob) (Bid blob))),
                         rb_shards st,
                         drain h clusterID vid shardSize blob late (rb_inflight st)
                           (rb_world st))))"

subsection \<open>The small-read path: getDataShardOnly\<close>

text \<open>
  The loop \<^verbatim>\<open>for i, shard := range blobVolume.Units[firstShardIdx:tactic.N]\<close>. The second
  argument is the unit index \<^verbatim>\<open>firstShardIdx + i\<close>, the last but one the bytes gathered in
  \<^verbatim>\<open>buffer.DataBuf\<close> so far. The result is the error returned from within the loop, or the
  remaining size and the bytes at the loop's exit.
\<close>

fun dataShardLoop ::
  "Handler \<Rightarrow> ClusterID \<Rightarrow> blobGetArgs \<Rightarrow> nat \<Rightarrow> Unit list \<Rightarrow> nat \<Rightarrow> nat \<Rightarrow> nat \<Rightarrow> bytes
     \<Rightarrow> World \<Rightarrow> (error + nat \<times> bytes) \<times> World" where
  "dataShardLoop h clusterID blob i [] shardSize shardOffset remain acc w =
     (Inr (remain, acc), w)"
| "dataShardLoop h clusterID blob i (shard # rest) shardSize shardOffset remain acc w =
     (if remain \<le> 0 then (Inr (remain, acc), w)
      else
        let toReadSize = min remain (shardSize - shardOffset);
            args = \<lparr>arg_DiskID = unit_DiskID shard, arg_Vuid = unit_Vuid shard,
                    arg_Bid = Bid blob, arg_Offset = shardOffset, arg_Size = toReadSize\<rparr>
        in case getOneShardFromHost h (unit_Host shard) (unit_DiskID shard) args i
                  clusterID (Vid blob) None w of
             ((Some body, None), w1) \<Rightarrow>
               if length body < toReadSize then (Inl ErrNeedReconstructRead, w1)
               else dataShardLoop h clusterID blob (Suc i) rest shardSize 0
                      (remain - toReadSize) (acc @ take toReadSize body) w1
           | (_, w1) \<Rightarrow> (Inl ErrNeedReconstructRead, w1))"

text \<open>
  getDataShardOnly. Modelled from the spec: \<^verbatim>\<open>ec.NewRangeBuffer\<close> is not part of the
  excerpt; the range buffer has the shard size that \<^verbatim>\<open>ec.GetBufferSizes\<close> gives for the
  blob, and a data buffer from the pool for the bytes of the range, which the deferred
  \<^verbatim>\<open>Release\<close> puts back. Slicing the units beyond their length and dividing by a zero
  shard size panic.
\<close>

definition getDataShardOnly ::
  "Handler \<Rightarrow> ClusterID \<Rightarrow> blobGetArgs \<Rightarrow> World \<Rightarrow> error option outcome \<times> World" where
  "getDataShardOnly h clusterID blob w =
     (if ReadSize blob = 0 then (Returns None, w)
      else
        let w1 = emit (EvGetVolume clusterID (Vid blob) True) w in
        case getVolumePhy h (events w) clusterID (Vid blob) True of
          None \<Rightarrow> (Returns (Some ErrGetVolume), w1)
        | Some blobVolume \<Rightarrow>
            let tactic = codeModeTactic h (vol_CodeMode blobVolume) in
            (case getBufferSizes h (unat (BlobSize blob)) tactic of
               None \<Rightarrow> (Returns (Some ErrRangeBuffer), w1)
             | Some sizes \<Rightarrow>
                 (case Alloc h (unat (ReadSize blob)) w1 of
                    (None, w2) \<Rightarrow> (Returns (Some ErrRangeBuffer), w2)
                  | (Some dataBuf, w2) \<Rightarrow>
                      let shardSize = ShardSize sizes in
                      if shardSize = 0 then (Panics, w2)
                      else
                        let firstShardIdx = unat (Offset blob) div shardSize;
                            shardOffset = unat (Offset blob) mod shardSize
                        in if firstShardIdx > tactic_N tactic
                              \<or> tactic_N tactic > length (vol_Units blobVolume)
                           then (Panics, w2)
                           else
                             case dataShardLoop h clusterID blob firstShardIdx
                                    (drop firstShardIdx (take (tactic_N tactic)
                                       (vol_Units blobVolume)))
                                    shardSize shardOffset (unat (ReadSize blob)) [] w2 of
                               (Inl err, w3) \<Rightarrow> (Returns (Some err), Put dataBuf w3)
                             | (Inr (remain, acc), w3) \<Rightarrow>
                                 if remain > 0
                                 then (Returns (Some (ErrNoEnoughDataToRead (of_nat remain))),
                                       Put dataBuf w3)
                                 else if writeFails h (events w3) acc
                                 then (Returns (Some ErrWriteToResponse), Put dataBuf w3)
                                 else (Returns None, Put dataBuf (emit (EvWrite acc) w3)))))"

subsection \<open>The general path of Get: the pipeline and its consumer\<close>

record pipeBuffer =
  pb_err :: "error option"
  pb_blob :: blobGetArgs
  pb_shards :: "buffer list"

text \<open>
  The loop \<^verbatim>\<open>for ii := range shards\<close> that allocates the shard matrix of a blob; the error
  of \<^verbatim>\<open>Alloc\<close> is dropped in the source, which leaves a \<^verbatim>\<open>nil\<close> slice.
\<close>

fun allocShards :: "Handler \<Rightarrow> nat \<Rightarrow> nat \<Rightarrow> World \<Rightarrow> buffer list \<times> World" where
  "allocShards h 0 shardSize w = ([], w)"
| "allocShards h (Suc n) shardSize w =
     (let (buf, w1) = Alloc h shardSize w;
          (bufs, w2) = allocShards h n shardSize w1
      in ((case buf of None \<Rightarrow> nil_buffer | Some b \<Rightarrow> b) # bufs, w2))"

text \<open>
  The order in which concurrent parts of a Get proceed: for each blob (by its id) the
  order of delivery and the lateness of its shard reads, and the turns of the two
  goroutines of the general path.
\<close>

datatype turn = Produce bool | Consume

record Schedule =
  arrival :: "BlobID \<Rightarrow> nat list"
  lateness :: "BlobID \<Rightarrow> nat \<Rightarrow> nat"
  turns :: "turn list"

text \<open>
  The body of the pipeline's loop \<^verbatim>\<open>for _, blob := range blobs\<close> up to the point where
  it sends: it resolves the volume and sorts its units when the volume changes, allocates
  the N+M buffers and reads the blob. The second component of the result is the pair
  \<^verbatim>\<open>blobVolume, sortedVuids\<close>.
\<close>

definition produceBlob ::
  "Handler \<Rightarrow> ClusterID \<Rightarrow> Schedule \<Rightarrow> blobGetArgs \<Rightarrow> (VolumePhy \<times> sortedVuid list) option
     \<Rightarrow> World \<Rightarrow> pipeBuffer outcome \<times> (VolumePhy \<times> sortedVuid list) option \<times> World" where
  "produceBlob h clusterID sch blob vol w =
     (let failed = (\<lambda>e. \<lparr>pb_err = Some e, pb_blob = blob, pb_shards = []\<rparr>);
          stale = (case vol of None \<Rightarrow> True | Some (bv, _) \<Rightarrow> vol_Vid bv \<noteq> Vid blob);
          w1 = (if stale then emit (EvGetVolume clusterID (Vid blob) True) w else w);
          looked = (if stale then getVolumePhy h (events w) clusterID (Vid blob) True
                    else map_option fst vol)
      in case looked of
           None \<Rightarrow> (Returns (failed ErrGetVolume), vol, w1)
         | Some blobVolume \<Rightarrow>
             let tactic = codeModeTactic h (vol_CodeMode blobVolume);
                 n = tactic_N tactic + tactic_M tactic
             in if stale \<and> n > length (vol_Units blobVolume) then (Panics, vol, w1)
             else
               let (sortedVuids, w2) =
                     (if stale then genSortedVuidByIDC h (take n (vol_Units blobVolume)) w1
                      else (case vol of None \<Rightarrow> ([], w1) | Some (_, svs) \<Rightarrow> (svs, w1)));
                   vol' = Some (blobVolume, sortedVuids)
               in if stale \<and> length sortedVuids < tactic_N tactic
                  then (Returns (failed (ErrBrokenBlob clusterID (Vid blob) (Bid blob))),
                        vol', w2)
                  else
                    let shardSize = (case getBufferSizes h (unat (BlobSize blob)) tactic of
                                       None \<Rightarrow> 0 | Some sizes \<Rightarrow> ShardSize sizes);
                        (shards, w3) = allocShards h n shardSize w2
                    in case readOneBlob h clusterID (vol_Vid blobVolume)
                              (vol_CodeMode blobVolume) blob sortedVuids shards
                              (arrival sch (Bid blob)) (lateness sch (Bid blob)) w3 of
                         (Returns None, shards', w4) \<Rightarrow>
                           (Returns \<lparr>pb_err = None, pb_blob = blob, pb_shards = shards'\<rparr>,
                            vol', w4)
                       | (Returns (Some err), shards', w4) \<Rightarrow>
                           (Returns (failed err), vol', fold Put shards' w4)
                       | (Hangs, shards', w4) \<Rightarrow> (Hangs, vol', w4)
                       | (Panics, shards', w4) \<Rightarrow> (Panics, vol', w4))"

text \<open>
  The loop of the consumer that writes the range \<^verbatim>\<open>[Offset, Offset + ReadSize)\<close> of a blob
  from its shards to the caller: \<^verbatim>\<open>for toReadSize > 0\<close>. The first list is
  \<^verbatim>\<open>line.shards[idx:]\<close>; indexing beyond the shards panics.
\<close>

fun writeShards ::
  "Handler \<Rightarrow> buffer list \<Rightarrow> nat \<Rightarrow> nat \<Rightarrow> World \<Rightarrow> error option outcome \<times> World" where
  "writeShards h [] off toReadSize w =
     (if toReadSize > 0 then (Panics, w) else (Returns None, w))"
| "writeShards h (buf # rest) off toReadSize w =
     (if toReadSize > 0 then
        (let l = length (buf_data buf) in
         if off \<ge> l then writeShards h rest (off - l) toReadSize w
         else
           let toRead = min toReadSize (l - off);
               chunk = take toRead (drop off (buf_data buf))
           in if writeFails h (events w) chunk then (Returns (Some ErrWriteToResponse), w)
              else writeShards h rest 0 (toReadSize - toRead) (emit (EvWrite chunk) w))
      else (Returns None, w))"

text \<open>
  Where the pipeline goroutine stands: at the head of its loop with the blobs still to
  read; in the \<^verbatim>\<open>select\<close> that offers a blob's shards to the channel or returns when
  \<^verbatim>\<open>closeCh\<close> is closed; in the send of an error; returned (its channel is then closed); or
  stuck in a read that hangs or panics.
\<close>

datatype producer =
  Producing "blobGetArgs list"
  | Offering pipeBuffer "blobGetArgs list"
  | Failing pipeBuffer
  | Finished
  | Stuck

text \<open>
  The state of the general path: the pipeline goroutine with its variables
  \<^verbatim>\<open>blobVolume, sortedVuids\<close>, the contents of the channel of capacity 1, whether
  \<^verbatim>\<open>closeCh\<close> is closed, what the consumer (the transfer function itself) has returned, if
  it has, and the world.
\<close>

record get_state =
  gs_producer :: producer
  gs_volume :: "(VolumePhy \<times> sortedVuid list) option"
  gs_chan :: "pipeBuffer list"
  gs_closed :: bool
  gs_result :: "error option outcome option"
  gs_world :: World

text \<open>
  One move of the pipeline goroutine. In the \<^verbatim>\<open>select\<close>, when both the send and the
  receive from \<^verbatim>\<open>closeCh\<close> can proceed, Go chooses either; \<open>preferClose\<close> is that choice.
  A move that cannot proceed leaves the state as it is.
\<close>

definition producerStep ::
  "Handler \<Rightarrow> ClusterID \<Rightarrow> Schedule \<Rightarrow> bool \<Rightarrow> get_state \<Rightarrow> get_state" where
  "producerStep h clusterID sch preferClose gs =
     (case gs_producer gs of
        Producing [] \<Rightarrow> gs\<lparr>gs_producer := Finished\<rparr>
      | Producing (blob # rest) \<Rightarrow>
          (case produceBlob h clusterID sch blob (gs_volume gs) (gs_world gs) of
             (Returns pb, vol, w) \<Rightarrow>
               gs\<lparr>gs_producer := (if pb_err pb = None then Offering pb rest else Failing pb),
                  gs_volume := vol, gs_world := w\<rparr>
           | (_, vol, w) \<Rightarrow> gs\<lparr>gs_producer := Stuck, gs_volume := vol, gs_world := w\<rparr>)
      | Offering pb rest \<Rightarrow>
          if gs_closed gs \<and> (gs_chan gs \<noteq> [] \<or> preferClose) then gs\<lparr>gs_producer := Finished\<rparr>
          else if gs_chan gs = [] then gs\<lparr>gs_chan := [pb], gs_producer := Producing rest\<rparr>
          else gs
      | Failing pb \<Rightarrow>
          if gs_chan gs = [] then gs\<lparr>gs_chan := [pb], gs_producer := Finished\<rparr> else gs
      | Finished \<Rightarrow> gs
      | Stuck \<Rightarrow> gs)"

text \<open>
  One iteration of the consumer's loop \<^verbatim>\<open>for line := range pipeline\<close>: it takes a line
  from the channel, writes the blob's range, puts the line's buffers back and, when the
  write failed, closes \<^verbatim>\<open>closeCh\<close> and returns the error. The loop ends when the channel
  is empty and closed.
\<close>

definition consumerStep :: "Handler \<Rightarrow> get_state \<Rightarrow> get_state" where
  "consumerStep h gs =
     (if gs_result gs \<noteq> None then gs
      else
        case gs_chan gs of
          [] \<Rightarrow> if gs_producer gs = Finished then gs\<lparr>gs_result := Some (Returns None)\<rparr> else gs
        | line # _ \<Rightarrow>
            (case pb_err line of
               Some e \<Rightarrow> gs\<lparr>gs_chan := [], gs_result := Some (Returns (Some e))\<rparr>
             | None \<Rightarrow>
                 (case writeShards h (pb_shards line) (unat (Offset (pb_blob line)))
                         (unat (ReadSize (pb_blob line))) (gs_world gs) of
                    (Returns None, w1) \<Rightarrow>
                      gs\<lparr>gs_chan := [], gs_world := fold Put (pb_shards line) w1\<rparr>
                  | (Returns (Some e), w1) \<Rightarrow>
                      gs\<lparr>gs_chan := [], gs_world := fold Put (pb_shards line) w1,
                         gs_closed := True, gs_result := Some (Returns (Some e))\<rparr>
                  | (r, w1) \<Rightarrow> gs\<lparr>gs_chan := [], gs_world := w1, gs_result := Some r\<rparr>)))"

fun runTurns ::
  "Handler \<Rightarrow> ClusterID \<Rightarrow> Schedule \<Rightarrow> turn list \<Rightarrow> get_state \<Rightarrow> get_state" where
  "runTurns h clusterID sch [] gs = gs"
| "runTurns h clusterID sch (Produce preferClose # ts) gs =
     runTurns h clusterID sch ts (producerStep h clusterID sch preferClose gs)"
| "runTurns h clusterID sch (Consume # ts) gs =
     runTurns h clusterID sch ts (consumerStep h gs)"

text \<open>
  The general path: the state after the turns of the schedule. The result is \<open>None\<close>
  as long as the consumer has not returned.
\<close>

definition generalPath ::
  "Handler \<Rightarrow> ClusterID \<Rightarrow> Schedule \<Rightarrow> blobGetArgs list \<Rightarrow> World \<Rightarrow> get_state" where
  "generalPath h clusterID sch bs w =
     runTurns h clusterID sch (turns sch)
       \<lparr>gs_producer = Producing bs, gs_volume = None, gs_chan = [], gs_closed = False,
        gs_result = None, gs_world = w\<rparr>"

subsection \<open>Get\<close>

text \<open>
  The condition under which the transfer function tries to read data shards only. The
  error of \<^verbatim>\<open>ec.GetBufferSizes\<close> is dropped in the source, which leaves a zero shard
  size.
\<close>

definition readShardOnly :: "Handler \<Rightarrow> Location \<Rightarrow> blobGetArgs list \<Rightarrow> bool" where
  "readShardOnly h location bs =
     (length bs = 1 \<and>
      (let blob = bs ! 0;
           shardSize = (case getBufferSizes h (unat (BlobSize blob))
                               (codeModeTactic h (loc_CodeMode location)) of
                          None \<Rightarrow> 0 | Some sizes \<Rightarrow> ShardSize sizes)
       in unat (BlobSize blob) \<le> shardSize \<or> ReadSize blob < BlobSize blob div 4))"

text \<open>
  The transfer function that Get returns. Its result is the state of the general path,
  or, when the small-read path settles the request, a state in which only the result and
  the world matter.
\<close>

definition transfer ::
  "Handler \<Rightarrow> Location \<Rightarrow> Schedule \<Rightarrow> blobGetArgs list \<Rightarrow> World \<Rightarrow> get_state" where
  "transfer h location sch bs w =
     (let clusterID = loc_ClusterID location;
          settled = (\<lambda>r w'. \<lparr>gs_producer = Finished, gs_volume = None, gs_chan = [],
                             gs_closed = False, gs_result = Some r, gs_world = w'\<rparr>)
      in if readShardOnly h location bs
         then (case getDataShardOnly h clusterID (bs ! 0) w of
                 (Returns (Some ErrNeedReconstructRead), w1) \<Rightarrow> generalPath h clusterID sch bs w1
               | (r, w1) \<Rightarrow> settled r w1)
         else generalPath h clusterID sch bs w)"

text \<open>
  One call of \<^verbatim>\<open>GetServiceController\<close>, which Get retries three times
  (\<^verbatim>\<open>retry.Timed(3, 200).On\<close>).
\<close>

definition getServiceCall :: "Handler \<Rightarrow> ClusterID \<Rightarrow> World \<Rightarrow> error option \<times> World" where
  "getServiceCall h clusterID w =
     ((if getServiceController h (events w) clusterID then None else Some ErrGetService),
      emit (EvGetServiceController clusterID) w)"

text \<open>
  Get returns a transfer function and an error. \<open>None\<close> stands for the transfer
  function \<^verbatim>\<open>func() error { return nil }\<close>, which does nothing.
\<close>

definition Get ::
  "Handler \<Rightarrow> Location \<Rightarrow> uint64 \<Rightarrow> uint64 \<Rightarrow> World
     \<Rightarrow> (blobGetArgs list option \<times> error option) \<times> World" where
  "Get h location readSize offset w =
     (case genLocationBlobs location readSize offset of
        Inl err \<Rightarrow> ((None, Some ErrIllegalArguments), w)
      | Inr bs \<Rightarrow>
          if length bs = 0 then ((None, None), w)
          else
            (case retryOn 3 (getServiceCall h (loc_ClusterID location)) w of
               (Some err, w1) \<Rightarrow> ((None, Some err), w1)
             | (None, w1) \<Rightarrow> ((Some bs, None), w1)))"

text \<open>Running the transfer function that Get returned.\<close>

definition runTransfer ::
  "Handler \<Rightarrow> Location \<Rightarrow> Schedule \<Rightarrow> blobGetArgs list option \<Rightarrow> World
     \<Rightarrow> error option outcome option \<times> World" where
  "runTransfer h location sch f w =
     (case f of
        None \<Rightarrow> (Some (Returns None), w)
      | Some bs \<Rightarrow> (let gs = transfer h location sch bs w in (gs_result gs, gs_world gs)))"

subsection \<open>Notions used in the properties\<close>

text \<open>Calls of the storage node, and forced refreshes of a volume, in a log.\<close>

fun isRangeGet :: "event \<Rightarrow> bool" where
  "isRangeGet (EvRangeGet i host args) = True"
| "isRangeGet e = False"

fun isRefresh :: "event \<Rightarrow> bool" where
  "isRefresh (EvGetVolume clusterID vid isCache) = (\<not> isCache)"
| "isRefresh e = False"

text \<open>The error kinds on which the transport gives up, and the identity mismatches.\<close>

definition hardError :: "TransportError \<Rightarrow> bool" where
  "hardError e = (e = Overload \<or> e = DiskBroken \<or> e = VuidReadonly \<or> e = Timeout)"

definition identityMismatch :: "TransportError \<Rightarrow> bool" where
  "identityMismatch e = (e = DiskNotFound \<or> e = VuidNotFound)"

text \<open>
  The answer that the storage node gave to a call recorded in a log, \<open>base\<close> being the
  log before the call.
\<close>

fun answerOf :: "Handler \<Rightarrow> event list \<Rightarrow> event \<Rightarrow> TransportError option" where
  "answerOf h base (EvRangeGet i host args) =
     (case rangeGetShard h base host args of Inl err \<Rightarrow> Some err | Inr body \<Rightarrow> None)"
| "answerOf h base e = None"

text \<open>
  \<open>hardIsLast h base new\<close>: in the events \<open>new\<close> that follow the log \<open>base\<close>, a call of
  the storage node that was answered with one of the four hard errors is followed by no
  further call. \<open>mismatches h base new\<close> counts the calls in \<open>new\<close> that were answered
  with an identity mismatch.
\<close>

fun hardIsLast :: "Handler \<Rightarrow> event list \<Rightarrow> event list \<Rightarrow> bool" where
  "hardIsLast h base [] = True"
| "hardIsLast h base (e # es) =
     ((case answerOf h base e of
         Some err \<Rightarrow> (if hardError err then filter isRangeGet es = [] else True)
       | None \<Rightarrow> True)
      \<and> hardIsLast h (base @ [e]) es)"

fun mismatches :: "Handler \<Rightarrow> event list \<Rightarrow> event list \<Rightarrow> nat" where
  "mismatches h base [] = 0"
| "mismatches h base (e # es) =
     (case answerOf h base e of
        Some err \<Rightarrow> (if identityMismatch err then 1 else 0)
      | None \<Rightarrow> 0)
     + mismatches h (base @ [e]) es"

text \<open>The events that the shard transport can log.\<close>

fun transportEvent :: "event \<Rightarrow> bool" where
  "transportEvent (EvRangeGet i host args) = True"
| "transportEvent (EvGetVolume clusterID vid isCache) = True"
| "transportEvent (EvGetDiskHost disk) = True"
| "transportEvent (EvPunishDisk clusterID disk host reason) = True"
| "transportEvent (EvPunishDiskWith clusterID disk host reason) = True"
| "transportEvent e = False"

text \<open>The buffers that the pool has handed out and not got back.\<close>

definition outstanding :: "World \<Rightarrow> nat list" where
  "outstanding w = filter (\<lambda>i. i \<notin> set (returned w)) [0 ..< allocated w]"

subsection \<open>Concrete handlers\<close>

text \<open>
  A handler for a code mode with two data shards and one parity shard of four bytes each.
  The storage node answers every read of unit \<open>vuid\<close> with bytes of the value \<open>vuid\<close>;
  all disks are in the local IDC; the encoder knows the shards of the blob.
\<close>

definition demoUnits :: "Unit list" where
  "demoUnits =
     [\<lparr>unit_Vuid = 10, unit_DiskID = 1, unit_Host = ''host1''\<rparr>,
      \<lparr>unit_Vuid = 11, unit_DiskID = 2, unit_Host = ''host2''\<rparr>,
      \<lparr>unit_Vuid = 12, unit_DiskID = 3, unit_Host = ''host3''\<rparr>]"

definition demoHandler :: Handler where
  "demoHandler =
     \<lparr>IDC = ''A'', MinReadShardsX = 0,
      rangeGetShard = (\<lambda>es host args. Inr (replicate (arg_Size args) (ucast (arg_Vuid args)))),
      getVolumePhy = (\<lambda>es clusterID vid isCache.
                        Some \<lparr>vol_Vid = vid, vol_CodeMode = 1, vol_Units = demoUnits\<rparr>),
      getDiskHost = (\<lambda>es disk. Some \<lparr>hi_Host = ''host'', hi_IDC = ''A'', hi_Punished = False\<rparr>),
      getServiceController = (\<lambda>es clusterID. True),
      codeModeTactic = (\<lambda>cm. \<lparr>tactic_N = 2, tactic_M = 1, tactic_L = 0\<rparr>),
      reconstructData = (\<lambda>cm ds bad. Some [replicate 4 10, replicate 4 11, replicate 4 12]),
      getBufferSizes = (\<lambda>n t. Some \<lparr>ShardSize = 4, DataSize = n, ECDataSize = 8\<rparr>),
      hystrixRejects = (\<lambda>es. False),
      allocFails = (\<lambda>a n. False),
      poolGarbage = (\<lambda>i. 255),
      writeFails = (\<lambda>es chunk. False),
      randIntn = (\<lambda>k n. 0)\<rparr>"

definition world0 :: World where
  "world0 = \<lparr>events = [], allocated = 0, returned = [], draws = 0\<rparr>"



text \<open>A storage node whose bodies are one byte short.\<close>

definition shortHandler :: Handler where
  "shortHandler =
     demoHandler\<lparr>rangeGetShard := (\<lambda>es host args. Inr (replicate (arg_Size args - 1) 0))\<rparr>"






text \<open>The bytes that a log shows as written to the caller.\<close>

fun writtenBytes :: "event list \<Rightarrow> bytes" where
  "writtenBytes [] = []"
| "writtenBytes (EvWrite chunk # es) = chunk @ writtenBytes es"
| "writtenBytes (e # es) = writtenBytes es"

text \<open>
  The bookkeeping of the blob reader, for a set \<open>E\<close> of empty shard indexes and the set
  \<open>S\<close> of the indexes of the sorted units: every index is received, or its read is in
  flight, or its unit waits to be launched, and never two of these; the empty indexes
  are received as good.
\<close>

definition readerInv :: "nat set \<Rightarrow> nat set \<Rightarrow> blob_state \<Rightarrow> bool" where
  "readerInv E S st =
     (distinct (map fst (rb_received st))
      \<and> distinct (map sv_index (rb_inflight st @ rb_waiting st))
      \<and> fst ` set (rb_received st) \<inter> sv_index ` set (rb_inflight st @ rb_waiting st) = {}
      \<and> fst ` set (rb_received st) \<union> sv_index ` set (rb_inflight st @ rb_waiting st) = E \<union> S
      \<and> (\<forall>k \<in> E. (k, True) \<in> set (rb_received st)))"

text \<open>
  The state of the reader after the first two statements of its loop body: the swap of a
  good shard's buffer into the matrix, and the assignment to \<^verbatim>\<open>received\<close>.
  \<open>missing recv a b\<close> are the indexes from \<open>a\<close> up to \<open>b - 1\<close> that are not received as
  good; \<open>badCount\<close> is the number of shards received as bad.
\<close>

definition recordShard :: "shardData \<Rightarrow> blob_state \<Rightarrow> blob_state" where
  "recordShard shard st =
     (if sd_status shard
      then st\<lparr>rb_shards := (rb_shards st)[sd_index shard := sd_buffer shard],
              rb_world := Put (rb_shards st ! sd_index shard) (rb_world st)\<rparr>
      else st)
     \<lparr>rb_received := map_set (sd_index shard) (sd_status shard) (rb_received st)\<rparr>"

definition missing :: "(nat \<times> bool) list \<Rightarrow> nat \<Rightarrow> nat \<Rightarrow> nat list" where
  "missing recv a b = filter (\<lambda>i. map_of recv i \<noteq> Some True) [a ..< b]"

definition badCount :: "(nat \<times> bool) list \<Rightarrow> nat" where
  "badCount recv = length (filter (\<lambda>e. \<not> snd e) recv)"

text \<open>
  The progress of the reader, for N data and M parity shards, the sorted units and the
  number \<open>W0\<close> of units that wait when the loop starts: the bookkeeping is sound, a read is
  in flight, no unit has been launched before N entries are received, and only sorted
  units are read.
\<close>

definition progressInv ::
  "nat \<Rightarrow> nat \<Rightarrow> nat set \<Rightarrow> sortedVuid list \<Rightarrow> nat \<Rightarrow> blob_state \<Rightarrow> bool" where
  "progressInv N M E svs W0 st =
     (readerInv E (sv_index ` set svs) st
      \<and> length (rb_shards st) = N + M
      \<and> rb_inflight st \<noteq> []
      \<and> (if length (rb_received st) < N then length (rb_waiting st) = W0 else True)
      \<and> set (rb_inflight st) \<union> set (rb_waiting st) \<subseteq> set svs)"

(*DEFS*)






(*THEOREMS*)

section \<open>Properties\<close>

subsection \<open>genLocationBlobs\<close>

text \<open>
  While the running blob index stays below the first blob to read, an iteration of the
  inner loop only advances the index (and the blob id, which is local to the run).
\<close>

lemma gen_run_skip:
  "remainSize s \<noteq> 0 \<Longrightarrow> unat (idx s) + k \<le> unat firstBlobIdx \<Longrightarrow>
   gen_run fileSize blobSize firstBlobIdx vid k currBlobID s = Inr (s\<lparr>idx := idx s + of_nat k\<rparr>)"
proof (induction k arbitrary: currBlobID s)
  case 0
  then show ?case by simp
next
  case (Suc k)
  have lt: "unat (idx s) < unat firstBlobIdx" using Suc.prems by simp
  hence nle: "\<not> firstBlobIdx \<le> idx s" by (simp add: word_le_nat_alt)
  have "unat (idx s) + 1 < 2 ^ 64"
    using lt unsigned_less [of firstBlobIdx, where 'a = nat] by simp
  hence u: "unat (idx s + 1) = unat (idx s) + 1"
    by (simp add: unat_word_ariths)
  have "gen_run fileSize blobSize firstBlobIdx vid k (currBlobID + 1) (s\<lparr>idx := idx s + 1\<rparr>)
      = Inr ((s\<lparr>idx := idx s + 1\<rparr>)\<lparr>idx := idx (s\<lparr>idx := idx s + 1\<rparr>) + of_nat k\<rparr>)"
    using Suc.prems u by (intro Suc.IH) simp_all
  thus ?case using Suc.prems nle
    by (simp add: word_le_nat_alt add.assoc add.commute unat_gt_0)
qed

text \<open>
  Claim C5, at an input where the 64-bit sum \<open>offset + readSize\<close> wraps around:
  reading 1 byte at offset \<open>2^64 - 1\<close> of a location of total size 0 passes the size check
  of genLocationBlobs (the sum is 0) and, the location having more than \<open>2^32 + 1\<close> blobs,
  returns one blob to read and no error, although \<open>offset + readSize\<close> exceeds the
  location's size.
\<close>

theorem genLocationBlobs_offset_overflow:
  "genLocationBlobs overflow_location 1 18446744073709551615
     = Inr [\<lparr>Vid = 7, Bid = 4294967297, BlobSize = 1, Offset = 0, ReadSize = 1\<rparr>]"
  apply (simp add: genLocationBlobs_def overflow_location_def)
  apply (subst gen_run_skip)
    apply simp
   apply simp
  apply simp
  apply (simp add: numeral_3_eq_3 minU64_def)
  done

subsection \<open>getOneShardFromHost\<close>

lemma hardIsLast_no_calls:
  "filter isRangeGet es = [] \<Longrightarrow> hardIsLast h base es"
proof (induction es arbitrary: base)
  case Nil
  then show ?case by simp
next
  case (Cons e es)
  then show ?case by (cases e) (simp_all split: if_splits)
qed

lemma mismatches_no_calls:
  "filter isRangeGet es = [] \<Longrightarrow> mismatches h base es = 0"
proof (induction es arbitrary: base)
  case Nil
  then show ?case by simp
next
  case (Cons e es)
  then show ?case by (cases e) (simp_all split: if_splits)
qed

lemma hardIsLast_append_quiet:
  "filter isRangeGet xs = [] \<Longrightarrow> hardIsLast h base (xs @ ys) = hardIsLast h (base @ xs) ys"
proof (induction xs arbitrary: base)
  case Nil
  then show ?case by simp
next
  case (Cons e xs)
  then show ?case by (cases e) (simp_all split: if_splits)
qed

lemma mismatches_append:
  "mismatches h base (xs @ ys) = mismatches h base xs + mismatches h (base @ xs) ys"
  by (induction xs arbitrary: base) simp_all

lemma afterSwitch_log:
  "afterSwitch clusterID err s = ((intr, e), s') \<Longrightarrow>
   \<exists>new. events (sc_world s') = events (sc_world s) @ new
     \<and> filter isRangeGet new = [] \<and> filter isRefresh new = []
     \<and> allocated (sc_world s') = allocated (sc_world s)
     \<and> returned (sc_world s') = returned (sc_world s)
     \<and> draws (sc_world s') = draws (sc_world s)
     \<and> (errorTimeout err \<longrightarrow> intr) \<and> e \<noteq> None"
  by (auto simp: afterSwitch_def emit_def hardError_def errorTimeout_def split: if_splits)

lemma onNotFound_log:
  "onNotFound h index clusterID vid err s = ((intr, e), s') \<Longrightarrow>
   \<exists>new. events (sc_world s') = events (sc_world s) @ new
     \<and> filter isRangeGet new = [] \<and> length (filter isRefresh new) = 1
     \<and> allocated (sc_world s') = allocated (sc_world s)
     \<and> returned (sc_world s') = returned (sc_world s)
     \<and> draws (sc_world s') = draws (sc_world s) \<and> e \<noteq> None"
  by (auto simp: onNotFound_def afterSwitch_def emit_def Let_def
           split: if_splits option.splits)


text \<open>What one attempt adds to the log, and what it leaves alone.\<close>

lemma getShardAttempt_log:
  assumes "getShardAttempt h index clusterID vid cancelChan s = ((intr, e), s')"
  shows "\<exists>new. events (sc_world s') = events (sc_world s) @ new
     \<and> allocated (sc_world s') = allocated (sc_world s)
     \<and> returned (sc_world s') = returned (sc_world s)
     \<and> draws (sc_world s') = draws (sc_world s)
     \<and> (new = [] \<and> intr \<and> e \<noteq> None \<or>
        (\<exists>rest. new = EvRangeGet index (sc_host s) (sc_args s) # rest
           \<and> filter isRangeGet rest = []
           \<and> length (filter isRefresh rest) =
               (case rangeGetShard h (events (sc_world s)) (sc_host s) (sc_args s) of
                  Inl err \<Rightarrow> if identityMismatch err then 1 else 0 | Inr body \<Rightarrow> 0)
           \<and> (case rangeGetShard h (events (sc_world s)) (sc_host s) (sc_args s) of
                  Inl err \<Rightarrow> (hardError err \<longrightarrow> intr) \<and> e \<noteq> None
                | Inr body \<Rightarrow> e = None \<and> sc_rbody s' = Some body)))"
proof (cases "case cancelChan of None \<Rightarrow> False | Some isClosed \<Rightarrow> isClosed (sc_attempt s)")
  case True
  then show ?thesis using assms by (auto simp: getShardAttempt_def)
next
  case notc: False
  let ?s1 = "s\<lparr>sc_attempt := Suc (sc_attempt s),
               sc_world := emit (EvRangeGet index (sc_host s) (sc_args s)) (sc_world s)\<rparr>"
  show ?thesis
  proof (cases "rangeGetShard h (events (sc_world s)) (sc_host s) (sc_args s)")
    case (Inr body)
    then show ?thesis using assms notc
      by (auto simp: getShardAttempt_def emit_def)
  next
    case (Inl err)
    consider (nf) "identityMismatch err" | (hard) "err = Overload \<or> err = DiskBroken \<or> err = VuidReadonly"
      | (sw) "err = Timeout \<or> err = Other"
      by (cases err) (auto simp: identityMismatch_def)
    then show ?thesis
    proof cases
      case nf
      hence "onNotFound h index clusterID vid err ?s1 = ((intr, e), s')"
        using assms notc Inl by (auto simp: getShardAttempt_def Let_def identityMismatch_def)
      from onNotFound_log [OF this] nf Inl show ?thesis
        by (auto simp: emit_def hardError_def identityMismatch_def)
    next
      case hard
      then show ?thesis using assms notc Inl
        by (auto simp: getShardAttempt_def emit_def Let_def hardError_def identityMismatch_def)
    next
      case sw
      hence "afterSwitch clusterID err ?s1 = ((intr, e), s')"
        using assms notc Inl by (auto simp: getShardAttempt_def Let_def)
      from afterSwitch_log [OF this] sw Inl show ?thesis
        by (auto simp: emit_def hardError_def identityMismatch_def errorTimeout_def)
    qed
  qed
qed


lemma rupt_loop_log:
  assumes "rupt_loop n (getShardAttempt h index clusterID vid cancelChan) lastErr s = (e, s')"
  shows "\<exists>new. events (sc_world s') = events (sc_world s) @ new
     \<and> allocated (sc_world s') = allocated (sc_world s)
     \<and> returned (sc_world s') = returned (sc_world s)
     \<and> draws (sc_world s') = draws (sc_world s)
     \<and> length (filter isRangeGet new) \<le> n
     \<and> hardIsLast h (events (sc_world s)) new
     \<and> length (filter isRefresh new) = mismatches h (events (sc_world s)) new
     \<and> (\<forall>x \<in> set new. isRangeGet x \<longrightarrow> (\<exists>host args. x = EvRangeGet index host args))"
  using assms
proof (induction n arbitrary: lastErr s)
  case 0
  then show ?case by simp
next
  case (Suc n)
  obtain intr e1 s1 where a: "getShardAttempt h index clusterID vid cancelChan s = ((intr, e1), s1)"
    by (metis surj_pair)
  from getShardAttempt_log [OF a] obtain new1 where
    ev1: "events (sc_world s1) = events (sc_world s) @ new1"
    and pool1: "allocated (sc_world s1) = allocated (sc_world s)"
      "returned (sc_world s1) = returned (sc_world s)" "draws (sc_world s1) = draws (sc_world s)"
    and shape: "new1 = [] \<and> intr \<and> e1 \<noteq> None \<or>
        (\<exists>rest. new1 = EvRangeGet index (sc_host s) (sc_args s) # rest
           \<and> filter isRangeGet rest = []
           \<and> length (filter isRefresh rest) =
               (case rangeGetShard h (events (sc_world s)) (sc_host s) (sc_args s) of
                  Inl err \<Rightarrow> if identityMismatch err then 1 else 0 | Inr body \<Rightarrow> 0)
           \<and> (case rangeGetShard h (events (sc_world s)) (sc_host s) (sc_args s) of
                  Inl err \<Rightarrow> (hardError err \<longrightarrow> intr) \<and> e1 \<noteq> None
                | Inr body \<Rightarrow> e1 = None \<and> sc_rbody s1 = Some body))"
    by blast
  have one: "length (filter isRangeGet new1) \<le> 1"
    and idx1: "\<forall>x \<in> set new1. isRangeGet x \<longrightarrow> (\<exists>host args. x = EvRangeGet index host args)"
    and ref1: "length (filter isRefresh new1) = mismatches h (events (sc_world s)) new1"
    using shape
    by (auto simp: filter_empty_conv mismatches_no_calls split: sum.splits)
  show ?case
  proof (cases "e1 = None \<or> intr")
    case True
    hence res: "s' = s1" using Suc.prems a by (auto split: option.splits)
    have "hardIsLast h (events (sc_world s)) new1"
      using shape by (auto simp: hardIsLast_no_calls split: sum.splits)
    thus ?thesis using res ev1 pool1 one idx1 ref1 by auto
  next
    case False
    then obtain err where e1: "e1 = Some err" and ni: "\<not> intr" by auto
    hence rec: "rupt_loop n (getShardAttempt h index clusterID vid cancelChan) (Some err) s1 = (e, s')"
      using Suc.prems a by simp
    from Suc.IH [OF rec] obtain new2 where
      ev2: "events (sc_world s') = events (sc_world s1) @ new2"
      and pool2: "allocated (sc_world s') = allocated (sc_world s1)"
        "returned (sc_world s') = returned (sc_world s1)" "draws (sc_world s') = draws (sc_world s1)"
      and n2: "length (filter isRangeGet new2) \<le> n"
      and h2: "hardIsLast h (events (sc_world s1)) new2"
      and r2: "length (filter isRefresh new2) = mismatches h (events (sc_world s1)) new2"
      and idx2: "\<forall>x \<in> set new2. isRangeGet x \<longrightarrow> (\<exists>host args. x = EvRangeGet index host args)"
      by blast
    have hl: "hardIsLast h (events (sc_world s)) (new1 @ new2)"
      using shape ni e1 h2 ev1
      by (auto simp: hardIsLast_append_quiet split: sum.splits)
    have "length (filter isRefresh (new1 @ new2)) = mismatches h (events (sc_world s)) (new1 @ new2)"
      using ref1 r2 ev1 by (simp add: mismatches_append)
    thus ?thesis using ev1 ev2 pool1 pool2 one n2 hl idx1 idx2
      by (intro exI [of _ "new1 @ new2"]) auto
  qed
qed

lemma getOneShardFromHost_log:
  assumes "getOneShardFromHost h host diskID args index clusterID vid cancelChan w = (r, w')"
  shows "\<exists>new. events w' = events w @ new
     \<and> allocated w' = allocated w \<and> returned w' = returned w \<and> draws w' = draws w
     \<and> length (filter isRangeGet new) \<le> 3
     \<and> hardIsLast h (events w) new
     \<and> length (filter isRefresh new) = mismatches h (events w) new
     \<and> (\<forall>x \<in> set new. isRangeGet x \<longrightarrow> (\<exists>host args. x = EvRangeGet index host args))"
proof -
  obtain e s' where l: "rupt_loop 3 (getShardAttempt h index clusterID vid cancelChan) None
             \<lparr>sc_host = host, sc_diskID = diskID, sc_args = args, sc_rbody = None,
              sc_attempt = 0, sc_world = w\<rparr> = (e, s')"
    by (metis surj_pair)
  hence "w' = sc_world s'" using assms by (simp add: getOneShardFromHost_def RuptOn_def)
  with rupt_loop_log [OF l] show ?thesis by simp
qed



text \<open>
  Claim C8: a call of getOneShardFromHost makes at most three attempts, that is, at most
  three calls of the storage node, and an attempt that the storage node answers with
  Overload, DiskBroken, VuidReadonly or a timeout is the last one. (The backoff between
  attempts is a delay, which the log of effects does not show.)
\<close>

theorem getOneShardFromHost_attempts:
  "\<exists>new. events (snd (getOneShardFromHost h host diskID args index clusterID vid cancelChan w))
            = events w @ new
       \<and> length (filter isRangeGet new) \<le> 3
       \<and> hardIsLast h (events w) new"
proof -
  obtain r w' where
    "getOneShardFromHost h host diskID args index clusterID vid cancelChan w = (r, w')"
    by (metis surj_pair)
  from getOneShardFromHost_log [OF this] this show ?thesis by auto
qed





subsection \<open>readOneShard\<close>

lemma outstanding_alloc_put:
  "allocated w' = Suc (allocated w) \<Longrightarrow> returned w' = allocated w # returned w \<Longrightarrow>
   outstanding w' = outstanding w"
proof -
  assume a: "allocated w' = Suc (allocated w)" and r: "returned w' = allocated w # returned w"
  have "filter (\<lambda>i. i \<notin> set (returned w')) [0 ..< allocated w]
        = filter (\<lambda>i. i \<notin> set (returned w)) [0 ..< allocated w]"
    using r by (intro filter_cong) auto
  thus ?thesis using a r by (simp add: outstanding_def)
qed

lemma outstanding_same:
  "allocated w' = allocated w \<Longrightarrow> returned w' = returned w \<Longrightarrow> outstanding w' = outstanding w"
  by (simp add: outstanding_def)

text \<open>
  Claim C10: readOneShard reports the index of its unit. When it reports success, the
  transport returned a body of at least \<open>shardSize\<close> bytes and the buffer is a fresh pool
  buffer of exactly \<open>shardSize\<close> bytes, the first \<open>shardSize\<close> bytes of the body. When it
  reports failure, it returns the nil buffer and the pool misses no buffer that it did not
  miss before; a buffer was allocated only if the transport returned a body.
\<close>

theorem readOneShard_buffer:
  "case readOneShard h clusterID vid shardSize blob vuid stopChan w of
     (shard, w') \<Rightarrow>
       sd_index shard = sv_index vuid \<and>
       (if sd_status shard
        then (\<exists>body w1.
                getOneShardFromHost h (sv_host vuid) (sv_diskID vuid)
                    \<lparr>arg_DiskID = sv_diskID vuid, arg_Vuid = sv_vuid vuid, arg_Bid = Bid blob,
                     arg_Offset = 0, arg_Size = shardSize\<rparr>
                    (sv_index vuid) clusterID vid (Some stopChan) w = ((Some body, None), w1)
                \<and> shardSize \<le> length body
                \<and> buf_data (sd_buffer shard) = take shardSize body
                \<and> length (buf_data (sd_buffer shard)) = shardSize
                \<and> buf_id (sd_buffer shard) = Some (allocated w)
                \<and> allocated w' = Suc (allocated w) \<and> returned w' = returned w)
        else sd_buffer shard = nil_buffer \<and> outstanding w' = outstanding w \<and>
             (allocated w' \<noteq> allocated w \<longrightarrow>
                (\<exists>body w1.
                   getOneShardFromHost h (sv_host vuid) (sv_diskID vuid)
                     \<lparr>arg_DiskID = sv_diskID vuid, arg_Vuid = sv_vuid vuid, arg_Bid = Bid blob,
                      arg_Offset = 0, arg_Size = shardSize\<rparr>
                     (sv_index vuid) clusterID vid (Some stopChan) w = ((Some body, None), w1))))"
proof -
  let ?args = "\<lparr>arg_DiskID = sv_diskID vuid, arg_Vuid = sv_vuid vuid, arg_Bid = Bid blob,
                     arg_Offset = 0, arg_Size = shardSize\<rparr>"
  let ?failed = "\<lparr>sd_index = sv_index vuid, sd_status = False, sd_buffer = nil_buffer\<rparr>"
  obtain rb re w1 where g: "getOneShardFromHost h (sv_host vuid) (sv_diskID vuid) ?args
       (sv_index vuid) clusterID vid (Some stopChan) w = ((rb, re), w1)"
    by (metis surj_pair)
  from getOneShardFromHost_log [OF g]
  have p: "allocated w1 = allocated w" "returned w1 = returned w" by auto
  have o1: "outstanding w1 = outstanding w" using p by (rule outstanding_same)
  consider (rej) "hystrixRejects h (events w)"
    | (err) "\<not> hystrixRejects h (events w)" "\<not> (\<exists>body. rb = Some body \<and> re = None)"
    | (noalloc) body where "\<not> hystrixRejects h (events w)" "rb = Some body" "re = None"
        "allocFails h (allocated w1) shardSize"
    | (short) body where "\<not> hystrixRejects h (events w)" "rb = Some body" "re = None"
        "\<not> allocFails h (allocated w1) shardSize" "length body < shardSize"
    | (ok) body where "\<not> hystrixRejects h (events w)" "rb = Some body" "re = None"
        "\<not> allocFails h (allocated w1) shardSize" "\<not> length body < shardSize"
    by blast
  then show ?thesis
  proof cases
    case rej
    hence r: "readOneShard h clusterID vid shardSize blob vuid stopChan w = (?failed, w)"
      by (simp add: readOneShard_def)
    show ?thesis unfolding r by simp
  next
    case err
    have r: "readOneShard h clusterID vid shardSize blob vuid stopChan w = (?failed, w1)"
    proof (cases rb)
      case None
      then show ?thesis using err g by (simp add: readOneShard_def)
    next
      case (Some body)
      with err obtain e where "re = Some e" by auto
      then show ?thesis using err g Some by (simp add: readOneShard_def)
    qed
    have nb: "\<And>body w2. ((rb, re), w1) \<noteq> ((Some body, None), w2)" using err by auto
    show ?thesis unfolding r using o1 p by simp
  next
    case noalloc
    hence r: "readOneShard h clusterID vid shardSize blob vuid stopChan w = (?failed, w1)"
      using g by (simp add: readOneShard_def Alloc_def)
    show ?thesis unfolding r using o1 p by simp
  next
    case short
    let ?w2 = "w1\<lparr>allocated := Suc (allocated w1), returned := allocated w1 # returned w1\<rparr>"
    have r: "readOneShard h clusterID vid shardSize blob vuid stopChan w = (?failed, ?w2)"
      using short g by (simp add: readOneShard_def Alloc_def ReadFull_def Put_def)
    have "outstanding ?w2 = outstanding w1" by (rule outstanding_alloc_put) simp_all
    hence o2: "outstanding ?w2 = outstanding w" using o1 by simp
    have ex: "\<exists>body w1'. getOneShardFromHost h (sv_host vuid) (sv_diskID vuid) ?args
       (sv_index vuid) clusterID vid (Some stopChan) w = ((Some body, None), w1')"
      using g short by blast
    show ?thesis unfolding r using o2 ex by simp
  next
    case ok
    let ?w2 = "w1\<lparr>allocated := Suc (allocated w1)\<rparr>"
    let ?shard = "\<lparr>sd_index = sv_index vuid, sd_status = True,
            sd_buffer = \<lparr>buf_id = Some (allocated w1), buf_data = take shardSize body\<rparr>\<rparr>"
    have r: "readOneShard h clusterID vid shardSize blob vuid stopChan w = (?shard, ?w2)"
      using ok g by (simp add: readOneShard_def Alloc_def ReadFull_def)
    have g': "getOneShardFromHost h (sv_host vuid) (sv_diskID vuid) ?args
       (sv_index vuid) clusterID vid (Some stopChan) w = ((Some body, None), w1)"
      using g ok by simp
    show ?thesis unfolding r g' using p ok by simp
  qed
qed

text \<open>
  A storage node whose body is one byte short: the buffer is allocated and put back.
\<close>

theorem readOneShard_buffer_witness:
  "readOneShard shortHandler 1 7 4 \<lparr>Vid = 7, Bid = 5, BlobSize = 8, Offset = 0, ReadSize = 8\<rparr>
     \<lparr>sv_index = 0, sv_vuid = 10, sv_diskID = 1, sv_host = ''host1''\<rparr> (\<lambda>a. False) world0
   = (\<lparr>sd_index = 0, sd_status = False, sd_buffer = nil_buffer\<rparr>,
      \<lparr>events = [EvRangeGet 0 ''host1''
                   \<lparr>arg_DiskID = 1, arg_Vuid = 10, arg_Bid = 5, arg_Offset = 0, arg_Size = 4\<rparr>],
       allocated = 1, returned = [0], draws = 0\<rparr>)
   \<and> outstanding \<lparr>events = [EvRangeGet 0 ''host1''
                   \<lparr>arg_DiskID = 1, arg_Vuid = 10, arg_Bid = 5, arg_Offset = 0, arg_Size = 4\<rparr>],
       allocated = 1, returned = [0], draws = 0\<rparr> = outstanding world0"
proof -
  have e: "readOneShard shortHandler 1 7 4 \<lparr>Vid = 7, Bid = 5, BlobSize = 8, Offset = 0, ReadSize = 8\<rparr>
     \<lparr>sv_index = 0, sv_vuid = 10, sv_diskID = 1, sv_host = ''host1''\<rparr> (\<lambda>a. False) world0
   = (\<lparr>sd_index = 0, sd_status = False, sd_buffer = nil_buffer\<rparr>,
      \<lparr>events = [EvRangeGet 0 ''host1''
                   \<lparr>arg_DiskID = 1, arg_Vuid = 10, arg_Bid = 5, arg_Offset = 0, arg_Size = 4\<rparr>],
       allocated = 1, returned = [0], draws = 0\<rparr>)"
    by (simp add: readOneShard_def getOneShardFromHost_def RuptOn_def numeral_3_eq_3
          getShardAttempt_def emit_def shortHandler_def demoHandler_def world0_def
          Alloc_def Put_def ReadFull_def Let_def)
  show ?thesis
    using readOneShard_buffer [where h = shortHandler and clusterID = 1 and vid = 7
        and shardSize = 4
        and blob = "\<lparr>Vid = 7, Bid = 5, BlobSize = 8, Offset = 0, ReadSize = 8\<rparr>"
        and vuid = "\<lparr>sv_index = 0, sv_vuid = 10, sv_diskID = 1, sv_host = ''host1''\<rparr>"
        and stopChan = "\<lambda>a. False" and w = world0]
    unfolding e by simp
qed



subsection \<open>genSortedVuidByIDC\<close>










declare distance.simps [simp del]









subsection \<open>getDataShardOnly and the choice of the path\<close>

lemma afterSwitch_kinds:
  "afterSwitch clusterID err s = (r, s') \<Longrightarrow>
   \<exists>new. events (sc_world s') = events (sc_world s) @ new
     \<and> (\<forall>x \<in> set new. transportEvent x \<and> \<not> isRangeGet x)
     \<and> sc_args s' = sc_args s"
  by (auto simp: afterSwitch_def emit_def split: if_splits)

lemma onNotFound_kinds:
  assumes "onNotFound h index clusterID vid err s = (r, s')"
  shows "\<exists>new. events (sc_world s') = events (sc_world s) @ new
     \<and> (\<forall>x \<in> set new. transportEvent x \<and> \<not> isRangeGet x)
     \<and> arg_Offset (sc_args s') = arg_Offset (sc_args s)
     \<and> arg_Size (sc_args s') = arg_Size (sc_args s)
     \<and> arg_Bid (sc_args s') = arg_Bid (sc_args s)"
proof (cases "getVolumePhy h (events (sc_world s)) clusterID vid False")
  case None
  then show ?thesis using assms by (auto simp: onNotFound_def emit_def)
next
  case (Some latestVolume)
  let ?w1 = "emit (EvGetVolume clusterID vid False) (sc_world s)"
  show ?thesis
  proof (cases "index \<ge> length (vol_Units latestVolume)")
    case True
    then show ?thesis using assms Some by (auto simp: onNotFound_def emit_def)
  next
    case False
    let ?nd = "unit_DiskID (vol_Units latestVolume ! index)"
    let ?w2 = "if ?nd \<noteq> sc_diskID s then emit (EvGetDiskHost ?nd) ?w1 else ?w1"
    have w2: "\<exists>new. events ?w2 = events (sc_world s) @ new
          \<and> (\<forall>x \<in> set new. transportEvent x \<and> \<not> isRangeGet x)"
      by (auto simp: emit_def)
    let ?s2 = "s\<lparr>sc_world := emit (EvPunishDiskWith clusterID (sc_diskID s) (sc_host s) ''NotFound'') ?w2\<rparr>"
    have w3: "\<exists>new. events (sc_world ?s2) = events (sc_world s) @ new
          \<and> (\<forall>x \<in> set new. transportEvent x \<and> \<not> isRangeGet x)"
      by (auto simp: emit_def)
    consider (move) hostIDC where "?nd \<noteq> sc_diskID s" "getDiskHost h (events ?w1) ?nd = Some hostIDC"
        "\<not> hi_Punished hostIDC"
      | (stay) "afterSwitch clusterID err ?s2 = (r, s')"
      using assms Some False
      by (auto simp: onNotFound_def Let_def split: option.splits if_splits)
    then show ?thesis
    proof cases
      case move
      hence "s' = s\<lparr>sc_host := hi_Host hostIDC, sc_diskID := ?nd,
                           sc_args := (sc_args s)\<lparr>arg_DiskID := ?nd,
                                  arg_Vuid := unit_Vuid (vol_Units latestVolume ! index)\<rparr>,
                           sc_world := ?w2\<rparr>"
        using assms Some False by (auto simp: onNotFound_def Let_def)
      thus ?thesis using w2 by auto
    next
      case stay
      from afterSwitch_kinds [OF stay] w3 show ?thesis
        by (elim exE conjE) (auto simp: emit_def)
    qed
  qed
qed

lemma getShardAttempt_kinds:
  assumes "getShardAttempt h index clusterID vid cancelChan s = (r, s')"
  shows "\<exists>new. events (sc_world s') = events (sc_world s) @ new
     \<and> (\<forall>x \<in> set new. transportEvent x
           \<and> (\<forall>i host a. x = EvRangeGet i host a \<longrightarrow> a = sc_args s))
     \<and> arg_Offset (sc_args s') = arg_Offset (sc_args s)
     \<and> arg_Size (sc_args s') = arg_Size (sc_args s)
     \<and> arg_Bid (sc_args s') = arg_Bid (sc_args s)"
proof (cases "case cancelChan of None \<Rightarrow> False | Some isClosed \<Rightarrow> isClosed (sc_attempt s)")
  case True
  then show ?thesis using assms by (auto simp: getShardAttempt_def)
next
  case notc: False
  let ?s1 = "s\<lparr>sc_attempt := Suc (sc_attempt s),
               sc_world := emit (EvRangeGet index (sc_host s) (sc_args s)) (sc_world s)\<rparr>"
  have e1: "events (sc_world ?s1) = events (sc_world s) @ [EvRangeGet index (sc_host s) (sc_args s)]"
    and a1: "sc_args ?s1 = sc_args s"
    by (simp_all add: emit_def)
  show ?thesis
  proof (cases "rangeGetShard h (events (sc_world s)) (sc_host s) (sc_args s)")
    case (Inr body)
    then show ?thesis using assms notc
      by (auto simp: getShardAttempt_def emit_def)
  next
    case (Inl err)
    consider (nf) "err = DiskNotFound \<or> err = VuidNotFound"
      | (hard) "err = Overload \<or> err = DiskBroken \<or> err = VuidReadonly"
      | (sw) "err = Timeout \<or> err = Other"
      by (cases err) auto
    then show ?thesis
    proof cases
      case nf
      hence "onNotFound h index clusterID vid err ?s1 = (r, s')"
        using assms notc Inl by (auto simp: getShardAttempt_def Let_def)
      from onNotFound_kinds [OF this] obtain new where
        "events (sc_world s') = events (sc_world ?s1) @ new"
        "\<forall>x \<in> set new. transportEvent x \<and> \<not> isRangeGet x"
        "arg_Offset (sc_args s') = arg_Offset (sc_args ?s1)"
        "arg_Size (sc_args s') = arg_Size (sc_args ?s1)"
        "arg_Bid (sc_args s') = arg_Bid (sc_args ?s1)"
        by blast
      thus ?thesis unfolding e1 a1
        by (intro exI [of _ "EvRangeGet index (sc_host s) (sc_args s) # new"]) auto
    next
      case hard
      then show ?thesis using assms notc Inl
        by (auto simp: getShardAttempt_def emit_def Let_def)
    next
      case sw
      hence "afterSwitch clusterID err ?s1 = (r, s')"
        using assms notc Inl by (auto simp: getShardAttempt_def Let_def)
      from afterSwitch_kinds [OF this] obtain new where
        "events (sc_world s') = events (sc_world ?s1) @ new"
        "\<forall>x \<in> set new. transportEvent x \<and> \<not> isRangeGet x"
        "sc_args s' = sc_args ?s1"
        by blast
      thus ?thesis unfolding e1 a1
        by (intro exI [of _ "EvRangeGet index (sc_host s) (sc_args s) # new"]) auto
    qed
  qed
qed

lemma rupt_loop_kinds:
  assumes "rupt_loop n (getShardAttempt h index clusterID vid cancelChan) lastErr s = (e, s')"
  shows "\<exists>new. events (sc_world s') = events (sc_world s) @ new
     \<and> (\<forall>x \<in> set new. transportEvent x
           \<and> (\<forall>i host a. x = EvRangeGet i host a \<longrightarrow>
                 arg_Offset a = arg_Offset (sc_args s) \<and> arg_Size a = arg_Size (sc_args s)
                 \<and> arg_Bid a = arg_Bid (sc_args s)))
     \<and> arg_Offset (sc_args s') = arg_Offset (sc_args s)
     \<and> arg_Size (sc_args s') = arg_Size (sc_args s)
     \<and> arg_Bid (sc_args s') = arg_Bid (sc_args s)"
  using assms
proof (induction n arbitrary: lastErr s)
  case 0
  then show ?case by simp
next
  case (Suc n)
  obtain intr e1 s1 where a: "getShardAttempt h index clusterID vid cancelChan s = ((intr, e1), s1)"
    by (metis surj_pair)
  from getShardAttempt_kinds [OF a] obtain new1 where
    n1: "events (sc_world s1) = events (sc_world s) @ new1"
      "\<forall>x \<in> set new1. transportEvent x
           \<and> (\<forall>i host a. x = EvRangeGet i host a \<longrightarrow> a = sc_args s)"
      "arg_Offset (sc_args s1) = arg_Offset (sc_args s)"
      "arg_Size (sc_args s1) = arg_Size (sc_args s)"
      "arg_Bid (sc_args s1) = arg_Bid (sc_args s)"
    by blast
  show ?case
  proof (cases "e1 = None \<or> intr")
    case True
    hence "s' = s1" using Suc.prems a by (auto split: option.splits)
    thus ?thesis using n1 by auto
  next
    case False
    then obtain err where "e1 = Some err" "\<not> intr" by auto
    hence "rupt_loop n (getShardAttempt h index clusterID vid cancelChan) (Some err) s1 = (e, s')"
      using Suc.prems a by simp
    from Suc.IH [OF this] obtain new2 where
      n2: "events (sc_world s') = events (sc_world s1) @ new2"
      "\<forall>x \<in> set new2. transportEvent x
           \<and> (\<forall>i host a. x = EvRangeGet i host a \<longrightarrow>
                 arg_Offset a = arg_Offset (sc_args s1) \<and> arg_Size a = arg_Size (sc_args s1)
                 \<and> arg_Bid a = arg_Bid (sc_args s1))"
      "arg_Offset (sc_args s') = arg_Offset (sc_args s1)"
      "arg_Size (sc_args s') = arg_Size (sc_args s1)"
      "arg_Bid (sc_args s') = arg_Bid (sc_args s1)"
      by blast
    show ?thesis using n1 n2 by (intro exI [of _ "new1 @ new2"]) auto
  qed
qed

lemma getOneShardFromHost_kinds:
  assumes "getOneShardFromHost h host diskID args index clusterID vid cancelChan w = (r, w')"
  shows "\<exists>new. events w' = events w @ new
     \<and> (\<forall>x \<in> set new. transportEvent x
           \<and> (\<forall>i hst a. x = EvRangeGet i hst a \<longrightarrow>
                 i = index \<and> arg_Offset a = arg_Offset args \<and> arg_Size a = arg_Size args
                 \<and> arg_Bid a = arg_Bid args))"
proof -
  obtain e s' where l: "rupt_loop 3 (getShardAttempt h index clusterID vid cancelChan) None
             \<lparr>sc_host = host, sc_diskID = diskID, sc_args = args, sc_rbody = None,
              sc_attempt = 0, sc_world = w\<rparr> = (e, s')"
    by (metis surj_pair)
  hence w': "w' = sc_world s'" using assms by (simp add: getOneShardFromHost_def RuptOn_def)
  from rupt_loop_kinds [OF l] obtain new where
    k: "events (sc_world s') = events w @ new"
      "\<forall>x \<in> set new. transportEvent x
           \<and> (\<forall>i host a. x = EvRangeGet i host a \<longrightarrow>
                 arg_Offset a = arg_Offset args \<and> arg_Size a = arg_Size args
                 \<and> arg_Bid a = arg_Bid args)"
    by auto
  from rupt_loop_log [OF l] obtain new' where
    k': "events (sc_world s') = events w @ new'"
      "\<forall>x \<in> set new'. isRangeGet x \<longrightarrow> (\<exists>host args. x = EvRangeGet index host args)"
    by auto
  have "new' = new" using k(1) k'(1) by simp
  hence "\<forall>x \<in> set new. \<forall>i hst a. x = EvRangeGet i hst a \<longrightarrow> i = index"
    using k'(2) by fastforce
  thus ?thesis using k w' by (intro exI [of _ new]) blast
qed











subsection \<open>The loop of readOneBlob\<close>

lemma map_set_keys: "fst ` set (map_set k v r) = insert k (fst ` set r)"
  by (induction r) auto

lemma map_set_distinct: "distinct (map fst r) \<Longrightarrow> distinct (map fst (map_set k v r))"
proof (induction r)
  case Nil
  then show ?case by simp
next
  case (Cons e r)
  have "fst ` set (map_set k v r) = insert k (fst ` set r)" by (rule map_set_keys)
  then show ?case using Cons by auto
qed

lemma map_set_new: "k \<notin> fst ` set r \<Longrightarrow> map_set k v r = r @ [(k, v)]"
  by (induction r) auto

lemma map_of_map_set: "map_of (map_set k v r) = (map_of r)(k \<mapsto> v)"
  by (induction r) (auto simp: fun_eq_iff)

lemma map_of_distinct_iff:
  "distinct (map fst r) \<Longrightarrow> (map_of r k = Some v) = ((k, v) \<in> set r)"
  by (induction r) (auto simp: rev_image_eqI)

lemma fold_map_set_True:
  "distinct es \<Longrightarrow> set es \<inter> fst ` set r = {} \<Longrightarrow>
   fold (\<lambda>i r. map_set i True r) es r = r @ map (\<lambda>i. (i, True)) es"
proof (induction es arbitrary: r)
  case Nil
  then show ?case by simp
next
  case (Cons e es)
  have "map_set e True r = r @ [(e, True)]" using Cons.prems by (intro map_set_new) auto
  moreover have "set es \<inter> fst ` set (r @ [(e, True)]) = {}" using Cons.prems by auto
  ultimately show ?case using Cons.IH [of "r @ [(e, True)]"] Cons.prems by simp
qed

lemma fold_Zero_nth:
  "length (fold (\<lambda>i bs. bs[i := Zero (bs ! i)]) es bufs) = length bufs
   \<and> (\<forall>j < length bufs.
        fold (\<lambda>i bs. bs[i := Zero (bs ! i)]) es bufs ! j
          = (if j \<in> set es then Zero (bufs ! j) else bufs ! j))"
proof (induction es arbitrary: bufs)
  case Nil
  then show ?case by simp
next
  case (Cons e es)
  let ?b = "bufs[e := Zero (bufs ! e)]"
  have z: "Zero (Zero (bufs ! e)) = Zero (bufs ! e)" by (simp add: Zero_def)
  have n: "Zero (?b ! j) = Zero (bufs ! j)" if "j < length bufs" for j
  proof (cases "j = e")
    case True
    then show ?thesis using that z by simp
  next
    case False
    then show ?thesis by simp
  qed
  have m: "\<And>j. j < length bufs \<Longrightarrow> j \<noteq> e \<Longrightarrow> ?b ! j = bufs ! j" by simp
  have h: "\<And>j. j < length bufs \<Longrightarrow> j = e \<Longrightarrow> ?b ! j = Zero (bufs ! j)" by simp
  show ?case using Cons.IH [of ?b] n m h z by (auto simp del: nth_list_update_neq)
qed

text \<open>What readOneShard does to the world.\<close>

lemma readOneShard_world:
  assumes "readOneShard h clusterID vid shardSize blob vuid stopChan w = (shard, w')"
  shows "sd_index shard = sv_index vuid
     \<and> (\<exists>new. events w' = events w @ new
           \<and> (\<forall>x \<in> set new. transportEvent x
                 \<and> (\<forall>i hst a. x = EvRangeGet i hst a \<longrightarrow> i = sv_index vuid)))"
proof -
  let ?args = "\<lparr>arg_DiskID = sv_diskID vuid, arg_Vuid = sv_vuid vuid, arg_Bid = Bid blob,
                     arg_Offset = 0, arg_Size = shardSize\<rparr>"
  obtain r w1 where g: "getOneShardFromHost h (sv_host vuid) (sv_diskID vuid) ?args
       (sv_index vuid) clusterID vid (Some stopChan) w = (r, w1)"
    by (metis surj_pair)
  from getOneShardFromHost_kinds [OF g] obtain new where
    n: "events w1 = events w @ new"
      "\<forall>x \<in> set new. transportEvent x
                 \<and> (\<forall>i hst a. x = EvRangeGet i hst a \<longrightarrow> i = sv_index vuid)"
    by blast
  have "sd_index shard = sv_index vuid \<and> events w' = events w1 \<or>
        sd_index shard = sv_index vuid \<and> events w' = events w"
    using assms g
    by (auto simp: readOneShard_def Let_def Alloc_def Put_def ReadFull_def
             split: if_splits option.splits prod.splits)
  thus ?thesis using n by auto
qed


text \<open>What onShard does to the bookkeeping of the reader.\<close>

lemma onShard_shape:
  assumes "onShard h codeMode nSorted shard st = (r, st')"
    and "sd_index shard < length (rb_shards st)"
  shows "rb_received st' = map_set (sd_index shard) (sd_status shard) (rb_received st)
     \<and> length (rb_shards st') = length (rb_shards st)
     \<and> (rb_inflight st' = rb_inflight st \<and> rb_waiting st' = rb_waiting st
        \<or> r = None \<and> (\<exists>v vs. rb_waiting st = v # vs \<and> rb_inflight st' = rb_inflight st @ [v]
                           \<and> rb_waiting st' = vs))"
  using assms
  by (auto simp: onShard_def Let_def closeStop_def sendNext_def setData_def
           split: if_splits option.splits list.splits)

lemma readerInv_step:
  assumes inv: "readerInv E S st"
    and k: "k < length (rb_inflight st)"
    and idx: "sd_index shard = sv_index (rb_inflight st ! k)"
    and on: "onShard h codeMode nSorted shard
               (st\<lparr>rb_inflight := take k (rb_inflight st) @ drop (Suc k) (rb_inflight st),
                   rb_world := w1\<rparr>) = (r, st')"
    and len: "sd_index shard < length (rb_shards st)"
  shows "readerInv E S st'
     \<and> rb_received st' = rb_received st @ [(sd_index shard, sd_status shard)]"
proof -
  let ?infl = "rb_inflight st"
  let ?rest = "take k ?infl @ drop (Suc k) ?infl"
  let ?v = "?infl ! k"
  have split: "?infl = take k ?infl @ ?v # drop (Suc k) ?infl"
    using k by (simp add: id_take_nth_drop)
  have d: "distinct (map sv_index (?infl @ rb_waiting st))" using inv by (simp add: readerInv_def)
  have dsplit: "distinct (map sv_index (take k ?infl @ ?v # drop (Suc k) ?infl @ rb_waiting st))"
    using d split by (metis append.assoc append_Cons)
  have vnot: "sv_index ?v \<notin> sv_index ` set (?rest @ rb_waiting st)"
    using dsplit by auto
  have drest: "distinct (map sv_index (?rest @ rb_waiting st))"
    using dsplit by auto
  have sets: "sv_index ` set (?infl @ rb_waiting st)
        = insert (sv_index ?v) (sv_index ` set (?rest @ rb_waiting st))"
    by (subst split) auto
  have vin: "sv_index ?v \<in> sv_index ` set (?infl @ rb_waiting st)" using k by auto
  have new: "sv_index ?v \<notin> fst ` set (rb_received st)"
    using inv vin by (auto simp: readerInv_def)
  let ?recv = "rb_received st @ [(sd_index shard, sd_status shard)]"
  from onShard_shape [OF on] len
  have sh: "rb_received st' = map_set (sd_index shard) (sd_status shard) (rb_received st)"
    "rb_inflight st' = ?rest \<and> rb_waiting st' = rb_waiting st
        \<or> (\<exists>v vs. rb_waiting st = v # vs \<and> rb_inflight st' = ?rest @ [v]
                           \<and> rb_waiting st' = vs)"
    by auto
  have recv: "rb_received st' = ?recv" using sh(1) new idx by (simp add: map_set_new)
  have app: "rb_inflight st' @ rb_waiting st' = ?rest @ rb_waiting st"
    using sh(2) by auto
  have same: "sv_index ` set (rb_inflight st' @ rb_waiting st')
                = sv_index ` set (?rest @ rb_waiting st)"
    by (simp only: app)
  have dist': "distinct (map sv_index (rb_inflight st' @ rb_waiting st'))"
    using drest by (simp only: app)
  have a: "distinct (map fst (rb_received st'))"
    using inv new idx recv by (simp add: readerInv_def)
  have b: "fst ` set (rb_received st') \<inter> sv_index ` set (rb_inflight st' @ rb_waiting st') = {}"
  proof -
    have "fst ` set (rb_received st) \<inter> sv_index ` set (?rest @ rb_waiting st) = {}"
      using inv sets by (auto simp: readerInv_def)
    thus ?thesis unfolding same recv using vnot idx by auto
  qed
  have c: "fst ` set (rb_received st') \<union> sv_index ` set (rb_inflight st' @ rb_waiting st') = E \<union> S"
  proof -
    have "fst ` set (rb_received st) \<union> sv_index ` set (?infl @ rb_waiting st) = E \<union> S"
      using inv by (simp add: readerInv_def)
    thus ?thesis unfolding same recv sets using idx by auto
  qed
  have e: "\<forall>k \<in> E. (k, True) \<in> set (rb_received st')"
    using inv recv by (simp add: readerInv_def)
  show ?thesis using a b c e dist' recv unfolding readerInv_def by blast
qed

text \<open>An invariant of the loop of the reader carries over to its exit.\<close>

lemma blob_loop_rule:
  assumes run: "blob_loop h clusterID vid codeMode shardSize blob nSorted sched st = (ex, st')"
    and inv: "I st"
    and closed: "\<And>s. I s \<Longrightarrow> rb_inflight s = [] \<Longrightarrow> rb_waiting s = [] \<Longrightarrow> Q PipeClosed s"
    and blocked: "\<And>s. I s \<Longrightarrow> rb_inflight s = [] \<Longrightarrow> rb_waiting s \<noteq> [] \<Longrightarrow> Q Blocked s"
    and step: "\<And>s k shard w1 r s2. I s \<Longrightarrow> k < length (rb_inflight s) \<Longrightarrow>
        readOneShard h clusterID vid shardSize blob (rb_inflight s ! k) (\<lambda>_. False) (rb_world s)
          = (shard, w1) \<Longrightarrow>
        onShard h codeMode nSorted shard
          (s\<lparr>rb_inflight := take k (rb_inflight s) @ drop (Suc k) (rb_inflight s),
             rb_world := w1\<rparr>) = (r, s2) \<Longrightarrow>
        (case r of None \<Rightarrow> I s2 | Some x \<Rightarrow> Q x s2)"
  shows "Q ex st'"
  using run inv closed blocked step
proof (induction h clusterID vid codeMode shardSize blob nSorted sched st rule: blob_loop.induct)
  case (1 h clusterID vid codeMode shardSize blob nSorted sched st)
  note closed = "1.prems"(3) and blocked = "1.prems"(4) and step = "1.prems"(5)
  show ?case
  proof (cases "rb_inflight st = []")
    case True
    then show ?thesis using "1.prems"(1,2) closed blocked
      by (subst (asm) blob_loop.simps) (auto split: if_splits)
  next
    case False
    define k where "k = (case sched of [] \<Rightarrow> 0 | c # _ \<Rightarrow> c mod length (rb_inflight st))"
    have kl: "k < length (rb_inflight st)" using False by (auto simp: k_def split: list.splits)
    obtain shard w1 where rd: "readOneShard h clusterID vid shardSize blob (rb_inflight st ! k)
          (\<lambda>_. False) (rb_world st) = (shard, w1)" by (metis surj_pair)
    define st1 where "st1 = st\<lparr>rb_inflight := take k (rb_inflight st) @ drop (Suc k) (rb_inflight st),
                     rb_world := w1\<rparr>"
    obtain r st2 where on: "onShard h codeMode nSorted shard st1 = (r, st2)" by (metis surj_pair)
    have c: "case r of None \<Rightarrow> I st2 | Some x \<Rightarrow> Q x st2"
      using step [OF "1.prems"(2) kl rd] on unfolding st1_def by simp
    show ?thesis
    proof (cases r)
      case None
      hence "blob_loop h clusterID vid codeMode shardSize blob nSorted (tl sched) st2 = (ex, st')"
        using "1.prems"(1) False rd on
        by (subst (asm) blob_loop.simps) (simp add: k_def [symmetric] st1_def [symmetric])
      moreover have "I st2" using c None by simp
      ultimately show ?thesis
        using "1.IH" [OF False k_def refl rd [symmetric] st1_def on [symmetric] None]
          closed blocked step
        by blast
    next
      case (Some x)
      hence "ex = x \<and> st' = st2"
        using "1.prems"(1) False rd on
        by (subst (asm) blob_loop.simps) (simp add: k_def [symmetric] st1_def [symmetric])
      thus ?thesis using c Some by simp
    qed
  qed
qed


lemma missing_append: "missing recv 0 n @ missing recv n (n + m) = missing recv 0 (n + m)"
  unfolding missing_def
  by (metis filter_append le_add1 upt_add_eq_append zero_le add_0)

lemma onShard_unfold:
  assumes "sd_index shard < length (rb_shards st)"
  shows "onShard h codeMode nSorted shard st =
    (let mid = recordShard shard st;
         recv = rb_received mid;
         dataN = tactic_N (codeModeTactic h codeMode);
         parityN = tactic_M (codeModeTactic h codeMode)
     in if length recv < dataN then (None, mid)
        else if missing recv 0 dataN = [] then (Some Reconstructed, closeStop mid)
        else if parityN < badCount recv then (Some NotEnough, closeStop mid)
        else
          let ready = (dataN + badCount recv \<le> length recv);
              st2 = (if ready
                     then mid\<lparr>rb_world := emit (EvReconstruct (missing recv 0 (dataN + parityN)))
                                              (rb_world mid)\<rparr>
                     else mid);
              rec = (if ready
                     then reconstructData h codeMode (map buf_data (rb_shards mid))
                            (missing recv 0 (dataN + parityN))
                     else None)
          in case rec of
               Some ds \<Rightarrow>
                 (Some Reconstructed, closeStop (st2\<lparr>rb_shards := setData (rb_shards st2) ds\<rparr>))
             | None \<Rightarrow>
                 if nSorted \<le> length recv then (Some Exhausted, closeStop st2)
                 else (None, sendNext st2))"
proof (cases "sd_status shard")
  case True
  then show ?thesis using assms
    by (simp add: onShard_def recordShard_def Let_def missing_def [symmetric]
          badCount_def [symmetric] missing_append split: option.splits)
next
  case False
  then show ?thesis using assms
    by (simp add: onShard_def recordShard_def Let_def missing_def [symmetric]
          badCount_def [symmetric] missing_append split: option.splits)
qed

text \<open>The six ways through the body of the reader's loop.\<close>

lemma onShard_few:
  assumes "sd_index shard < length (rb_shards st)"
    and "length (rb_received (recordShard shard st)) < tactic_N (codeModeTactic h codeMode)"
  shows "onShard h codeMode nSorted shard st = (None, recordShard shard st)"
  using assms(2) by (simp add: onShard_unfold [OF assms(1)] Let_def)

lemma onShard_all_data:
  assumes "sd_index shard < length (rb_shards st)"
    and "\<not> length (rb_received (recordShard shard st)) < tactic_N (codeModeTactic h codeMode)"
    and "missing (rb_received (recordShard shard st)) 0 (tactic_N (codeModeTactic h codeMode)) = []"
  shows "onShard h codeMode nSorted shard st = (Some Reconstructed, closeStop (recordShard shard st))"
  using assms(2,3) by (simp add: onShard_unfold [OF assms(1)] Let_def)

lemma onShard_too_bad:
  assumes "sd_index shard < length (rb_shards st)"
    and "\<not> length (rb_received (recordShard shard st)) < tactic_N (codeModeTactic h codeMode)"
    and "missing (rb_received (recordShard shard st)) 0 (tactic_N (codeModeTactic h codeMode)) \<noteq> []"
    and "tactic_M (codeModeTactic h codeMode) < badCount (rb_received (recordShard shard st))"
  shows "onShard h codeMode nSorted shard st = (Some NotEnough, closeStop (recordShard shard st))"
  using assms(2,3,4) by (simp add: onShard_unfold [OF assms(1)] Let_def)

lemma onShard_decoded:
  assumes "sd_index shard < length (rb_shards st)"
    and "\<not> length (rb_received (recordShard shard st)) < tactic_N (codeModeTactic h codeMode)"
    and "missing (rb_received (recordShard shard st)) 0 (tactic_N (codeModeTactic h codeMode)) \<noteq> []"
    and "\<not> tactic_M (codeModeTactic h codeMode) < badCount (rb_received (recordShard shard st))"
    and "tactic_N (codeModeTactic h codeMode) + badCount (rb_received (recordShard shard st))
           \<le> length (rb_received (recordShard shard st))"
    and "reconstructData h codeMode (map buf_data (rb_shards (recordShard shard st)))
           (missing (rb_received (recordShard shard st)) 0
              (tactic_N (codeModeTactic h codeMode) + tactic_M (codeModeTactic h codeMode)))
         = Some ds"
  shows "onShard h codeMode nSorted shard st =
     (Some Reconstructed,
      closeStop ((recordShard shard st)
        \<lparr>rb_world := emit (EvReconstruct (missing (rb_received (recordShard shard st)) 0
              (tactic_N (codeModeTactic h codeMode) + tactic_M (codeModeTactic h codeMode))))
              (rb_world (recordShard shard st)),
         rb_shards := setData (rb_shards (recordShard shard st)) ds\<rparr>))"
  using assms(2-) by (simp add: onShard_unfold [OF assms(1)] Let_def)

lemma onShard_undecoded:
  assumes "sd_index shard < length (rb_shards st)"
    and "\<not> length (rb_received (recordShard shard st)) < tactic_N (codeModeTactic h codeMode)"
    and "missing (rb_received (recordShard shard st)) 0 (tactic_N (codeModeTactic h codeMode)) \<noteq> []"
    and "\<not> tactic_M (codeModeTactic h codeMode) < badCount (rb_received (recordShard shard st))"
    and "tactic_N (codeModeTactic h codeMode) + badCount (rb_received (recordShard shard st))
           \<le> length (rb_received (recordShard shard st))"
    and "reconstructData h codeMode (map buf_data (rb_shards (recordShard shard st)))
           (missing (rb_received (recordShard shard st)) 0
              (tactic_N (codeModeTactic h codeMode) + tactic_M (codeModeTactic h codeMode)))
         = None"
  shows "onShard h codeMode nSorted shard st =
     (let st2 = (recordShard shard st)
        \<lparr>rb_world := emit (EvReconstruct (missing (rb_received (recordShard shard st)) 0
              (tactic_N (codeModeTactic h codeMode) + tactic_M (codeModeTactic h codeMode))))
              (rb_world (recordShard shard st))\<rparr>
      in if nSorted \<le> length (rb_received (recordShard shard st))
         then (Some Exhausted, closeStop st2) else (None, sendNext st2))"
  using assms(2-) by (simp add: onShard_unfold [OF assms(1)] Let_def)

lemma onShard_not_ready:
  assumes "sd_index shard < length (rb_shards st)"
    and "\<not> length (rb_received (recordShard shard st)) < tactic_N (codeModeTactic h codeMode)"
    and "missing (rb_received (recordShard shard st)) 0 (tactic_N (codeModeTactic h codeMode)) \<noteq> []"
    and "\<not> tactic_M (codeModeTactic h codeMode) < badCount (rb_received (recordShard shard st))"
    and "\<not> tactic_N (codeModeTactic h codeMode) + badCount (rb_received (recordShard shard st))
           \<le> length (rb_received (recordShard shard st))"
  shows "onShard h codeMode nSorted shard st =
     (if nSorted \<le> length (rb_received (recordShard shard st))
      then (Some Exhausted, closeStop (recordShard shard st))
      else (None, sendNext (recordShard shard st)))"
  using assms(2-) by (simp add: onShard_unfold [OF assms(1)] Let_def)


lemma readerInv_count:
  assumes "readerInv E S st" and "finite (E \<union> S)"
  shows "length (rb_received st) + length (rb_inflight st) + length (rb_waiting st) = card (E \<union> S)"
proof -
  let ?K = "fst ` set (rb_received st)"
  let ?I = "sv_index ` set (rb_inflight st @ rb_waiting st)"
  have d: "distinct (map fst (rb_received st))"
    "distinct (map sv_index (rb_inflight st @ rb_waiting st))"
    "?K \<inter> ?I = {}" "?K \<union> ?I = E \<union> S"
    using assms(1) by (simp_all add: readerInv_def)
  have "card ?K = length (rb_received st)"
    using d(1) by (metis distinct_card length_map set_map)
  moreover have "card ?I = length (rb_inflight st @ rb_waiting st)"
    using d(2) by (metis distinct_card length_map set_map)
  moreover have "card (?K \<union> ?I) = card ?K + card ?I"
    using d(3) by (intro card_Un_disjoint) auto
  ultimately show ?thesis using d(4) by simp
qed

lemma recordShard_fields:
  "rb_received (recordShard shard st) = map_set (sd_index shard) (sd_status shard) (rb_received st)"
  "rb_inflight (recordShard shard st) = rb_inflight st"
  "rb_waiting (recordShard shard st) = rb_waiting st"
  "length (rb_shards (recordShard shard st)) = length (rb_shards st)"
  "rb_shards (recordShard shard st)
     = (if sd_status shard then (rb_shards st)[sd_index shard := sd_buffer shard]
        else rb_shards st)"
  by (simp_all add: recordShard_def)

text \<open>When the loop body continues, and what it has done to the reads.\<close>

lemma onShard_continue:
  assumes on: "onShard h codeMode nSorted shard st = (None, st')"
    and len: "sd_index shard < length (rb_shards st)"
  shows "rb_shards st' = rb_shards (recordShard shard st)
     \<and> rb_received st' = rb_received (recordShard shard st)
     \<and> (length (rb_received st') < tactic_N (codeModeTactic h codeMode)
           \<and> rb_inflight st' = rb_inflight st \<and> rb_waiting st' = rb_waiting st
         \<or> tactic_N (codeModeTactic h codeMode) \<le> length (rb_received st')
           \<and> length (rb_received st') < nSorted
           \<and> (rb_waiting st = [] \<and> rb_inflight st' = rb_inflight st \<and> rb_waiting st' = []
              \<or> (\<exists>v vs. rb_waiting st = v # vs \<and> rb_inflight st' = rb_inflight st @ [v]
                     \<and> rb_waiting st' = vs)))"
proof -
  let ?N = "tactic_N (codeModeTactic h codeMode)"
  let ?M = "tactic_M (codeModeTactic h codeMode)"
  let ?mid = "recordShard shard st"
  let ?recv = "rb_received ?mid"
  have sn: "\<And>s. rb_shards (sendNext s) = rb_shards s \<and> rb_received (sendNext s) = rb_received s
      \<and> (rb_waiting s = [] \<and> rb_inflight (sendNext s) = rb_inflight s \<and> rb_waiting (sendNext s) = []
          \<or> (\<exists>v vs. rb_waiting s = v # vs \<and> rb_inflight (sendNext s) = rb_inflight s @ [v]
                     \<and> rb_waiting (sendNext s) = vs))"
  proof -
    fix s show "rb_shards (sendNext s) = rb_shards s \<and> rb_received (sendNext s) = rb_received s
      \<and> (rb_waiting s = [] \<and> rb_inflight (sendNext s) = rb_inflight s \<and> rb_waiting (sendNext s) = []
          \<or> (\<exists>v vs. rb_waiting s = v # vs \<and> rb_inflight (sendNext s) = rb_inflight s @ [v]
                     \<and> rb_waiting (sendNext s) = vs))"
      by (cases "rb_waiting s") (simp_all add: sendNext_def Let_def)
  qed
  show ?thesis
  proof (cases "length ?recv < ?N")
    case True
    have "st' = ?mid" using on onShard_few [OF len True, of nSorted] by simp
    then show ?thesis using True by (simp add: recordShard_fields)
  next
    case ge: False
    have bad: "missing ?recv 0 ?N \<noteq> []"
      using on onShard_all_data [OF len ge, of nSorted] by auto
    have few: "\<not> ?M < badCount ?recv"
      using on onShard_too_bad [OF len ge bad, of nSorted] by auto
    show ?thesis
    proof (cases "?N + badCount ?recv \<le> length ?recv")
      case ready: True
      let ?st2 = "?mid\<lparr>rb_world := emit (EvReconstruct (missing ?recv 0 (?N + ?M))) (rb_world ?mid)\<rparr>"
      have none: "reconstructData h codeMode (map buf_data (rb_shards ?mid))
                     (missing ?recv 0 (?N + ?M)) = None"
      proof (rule ccontr)
        assume "reconstructData h codeMode (map buf_data (rb_shards ?mid))
                     (missing ?recv 0 (?N + ?M)) \<noteq> None"
        then obtain ds where "reconstructData h codeMode (map buf_data (rb_shards ?mid))
                     (missing ?recv 0 (?N + ?M)) = Some ds" by auto
        from onShard_decoded [OF len ge bad few ready this, of nSorted] on show False by simp
      qed
      from onShard_undecoded [OF len ge bad few ready none, of nSorted] on
      have "length ?recv < nSorted" "st' = sendNext ?st2"
        by (auto simp: Let_def split: if_splits)
      thus ?thesis using sn [of ?st2] ge by (auto simp: recordShard_fields)
    next
      case False
      from onShard_not_ready [OF len ge bad few False, of nSorted] on
      have "length ?recv < nSorted" "st' = sendNext ?mid"
        by (auto split: if_splits)
      thus ?thesis using sn [of ?mid] ge by (auto simp: recordShard_fields)
    qed
  qed
qed


lemma progressInv_step:
  assumes inv: "progressInv N M E svs W0 st"
    and N: "N = tactic_N (codeModeTactic h codeMode)"
    and k: "k < length (rb_inflight st)"
    and idx: "sd_index shard = sv_index (rb_inflight st ! k)"
    and on: "onShard h codeMode (length svs) shard
               (st\<lparr>rb_inflight := take k (rb_inflight st) @ drop (Suc k) (rb_inflight st),
                   rb_world := w1\<rparr>) = (None, st')"
    and rng: "\<forall>sv \<in> set svs. sv_index sv < N + M"
    and dist: "distinct (map sv_index svs)"
    and fin: "finite E"
    and cnt: "N + W0 \<le> card (E \<union> sv_index ` set svs)"
  shows "progressInv N M E svs W0 st'
     \<and> rb_received st' = rb_received st @ [(sd_index shard, sd_status shard)]
     \<and> rb_shards st' = (if sd_status shard then (rb_shards st)[sd_index shard := sd_buffer shard]
                        else rb_shards st)"
proof -
  let ?S = "sv_index ` set svs"
  let ?st1 = "st\<lparr>rb_inflight := take k (rb_inflight st) @ drop (Suc k) (rb_inflight st),
                   rb_world := w1\<rparr>"
  have ri: "readerInv E ?S st" and ls: "length (rb_shards st) = N + M"
    and w0: "length (rb_received st) < N \<Longrightarrow> length (rb_waiting st) = W0"
    and sub: "set (rb_inflight st) \<union> set (rb_waiting st) \<subseteq> set svs"
    using inv by (simp_all add: progressInv_def)
  have "rb_inflight st ! k \<in> set svs" using sub k by auto
  hence len: "sd_index shard < length (rb_shards st)" using rng idx ls by simp
  hence len1: "sd_index shard < length (rb_shards ?st1)" by simp
  from readerInv_step [OF ri k idx on len]
  have ri': "readerInv E ?S st'"
    and recv: "rb_received st' = rb_received st @ [(sd_index shard, sd_status shard)]"
    by simp_all
  note oc = onShard_continue [OF on len1]
  have sh: "rb_shards st' = (if sd_status shard then (rb_shards st)[sd_index shard := sd_buffer shard]
                        else rb_shards st)"
    using oc [THEN conjunct1] by (simp add: recordShard_fields)
  let ?rest = "take k (rb_inflight st) @ drop (Suc k) (rb_inflight st)"
  have alt: "length (rb_received st') < N
           \<and> rb_inflight st' = ?rest \<and> rb_waiting st' = rb_waiting st
         \<or> N \<le> length (rb_received st')
           \<and> length (rb_received st') < length svs
           \<and> (rb_waiting st = [] \<and> rb_inflight st' = ?rest \<and> rb_waiting st' = []
              \<or> (\<exists>v vs. rb_waiting st = v # vs \<and> rb_inflight st' = ?rest @ [v]
                     \<and> rb_waiting st' = vs))"
    using oc [THEN conjunct2, THEN conjunct2] unfolding N by simp
  have finU: "finite (E \<union> ?S)" using fin by simp
  have count: "length (rb_received st') + length (rb_inflight st') + length (rb_waiting st')
                 = card (E \<union> ?S)"
    by (rule readerInv_count [OF ri' finU])
  have cardS: "length svs \<le> card (E \<union> ?S)"
  proof -
    have "card ?S = length svs" using dist by (metis distinct_card length_map set_map)
    moreover have "card ?S \<le> card (E \<union> ?S)" using finU by (intro card_mono) auto
    ultimately show ?thesis by simp
  qed
  have lsh: "length (rb_shards st') = N + M" using sh ls by simp
  have sub': "set (rb_inflight st') \<union> set (rb_waiting st') \<subseteq> set svs"
  proof -
    have r: "set ?rest \<subseteq> set (rb_inflight st)"
      by (auto dest: in_set_takeD in_set_dropD)
    from alt have "set (rb_inflight st') \<union> set (rb_waiting st') \<subseteq> set ?rest \<union> set (rb_waiting st)"
      by auto
    thus ?thesis using r sub by blast
  qed
  from alt show ?thesis
  proof (elim disjE conjE exE)
    assume a: "length (rb_received st') < N" "rb_inflight st' = ?rest"
      "rb_waiting st' = rb_waiting st"
    have "length (rb_received st) < N" using a(1) recv by simp
    hence w: "length (rb_waiting st') = W0" using a(3) w0 by simp
    have "length (rb_inflight st') \<noteq> 0" using count w a(1) cnt by linarith
    hence "rb_inflight st' \<noteq> []" by auto
    thus ?thesis using ri' lsh w a(1) sub' recv sh by (simp add: progressInv_def)
  next
    assume a: "N \<le> length (rb_received st')" "length (rb_received st') < length svs"
      "rb_waiting st = []" "rb_inflight st' = ?rest" "rb_waiting st' = []"
    have "length (rb_waiting st') = 0" using a(5) by simp
    hence "length (rb_inflight st') \<noteq> 0" using count a(2) cardS by linarith
    hence "rb_inflight st' \<noteq> []" by auto
    thus ?thesis using ri' lsh a(1) sub' recv sh by (simp add: progressInv_def)
  next
    fix v vs
    assume a: "N \<le> length (rb_received st')" "rb_inflight st' = ?rest @ [v]"
    thus ?thesis using ri' lsh sub' recv sh by (simp add: progressInv_def)
  qed
qed


text \<open>Counting received shards.\<close>

lemma badCount_le:
  assumes "distinct (map fst recv)" and "\<forall>e \<in> set recv. \<not> snd e \<longrightarrow> fst e \<in> B" and "finite B"
  shows "badCount recv \<le> card B"
proof -
  let ?bad = "filter (\<lambda>e. \<not> snd e) recv"
  have "distinct (map fst ?bad)" using assms(1) by (rule distinct_map_filter)
  hence "card (fst ` set ?bad) = length ?bad"
    by (metis distinct_card length_map set_map)
  moreover have "fst ` set ?bad \<subseteq> B" using assms(2) by auto
  ultimately show ?thesis using assms(3) by (metis badCount_def card_mono)
qed

lemma good_bad_length: "length (filter snd recv) + badCount recv = length recv"
  unfolding badCount_def by (rule sum_length_filter_compl)

lemma missing_complement:
  assumes d: "distinct (map fst recv)" and b: "\<forall>e \<in> set recv. fst e < n"
  shows "length (missing recv 0 n) + length (filter snd recv) = n"
proof -
  let ?P = "\<lambda>i. map_of recv i = Some True"
  have "length (filter ?P [0 ..< n]) + length (filter (\<lambda>i. \<not> ?P i) [0 ..< n]) = length [0 ..< n]"
    by (rule sum_length_filter_compl)
  hence a: "length (filter ?P [0 ..< n]) + length (missing recv 0 n) = n"
    by (simp add: missing_def)
  have "set (filter ?P [0 ..< n]) = fst ` set (filter snd recv)"
  proof (intro set_eqI iffI)
    fix i assume "i \<in> set (filter ?P [0 ..< n])"
    hence "(i, True) \<in> set recv" using d by (simp add: map_of_distinct_iff)
    thus "i \<in> fst ` set (filter snd recv)" by force
  next
    fix i assume "i \<in> fst ` set (filter snd recv)"
    then obtain e where e: "e \<in> set recv" "snd e" "fst e = i" by auto
    hence "(i, True) \<in> set recv" by (metis prod.collapse)
    thus "i \<in> set (filter ?P [0 ..< n])" using d b e by (auto simp: map_of_distinct_iff)
  qed
  moreover have "distinct (filter ?P [0 ..< n])" by simp
  moreover have "distinct (map fst (filter snd recv))" using d by (rule distinct_map_filter)
  ultimately have "length (filter ?P [0 ..< n]) = length (filter snd recv)"
    by (metis distinct_card length_map set_map)
  thus ?thesis using a by simp
qed

lemma not_missing:
  assumes "distinct (map fst recv)" and "i < n" and "i \<notin> set (missing recv 0 n)"
  shows "(i, True) \<in> set recv"
  using assms by (simp add: missing_def map_of_distinct_iff)

lemma enough_units:
  assumes sub: "S \<subseteq> {..< n + m}"
    and few: "card {i. i < n + m \<and> (i \<notin> S \<or> i \<in> F)} \<le> m"
  shows "n + card (F \<inter> S) \<le> card S"
proof -
  let ?out = "{i. i < n + m \<and> i \<notin> S}"
  have fin: "finite S" "finite ?out" using sub by (auto intro: finite_subset)
  have "S \<union> ?out = {..< n + m}" using sub by auto
  moreover have "S \<inter> ?out = {}" by auto
  ultimately have total: "card S + card ?out = n + m"
    using fin by (metis card_Un_disjoint card_lessThan)
  have "(F \<inter> S) \<union> ?out \<subseteq> {i. i < n + m \<and> (i \<notin> S \<or> i \<in> F)}" using sub by auto
  moreover have "finite {i. i < n + m \<and> (i \<notin> S \<or> i \<in> F)}" by simp
  ultimately have "card ((F \<inter> S) \<union> ?out) \<le> m" using few by (meson card_mono le_trans)
  moreover have "card ((F \<inter> S) \<union> ?out) = card (F \<inter> S) + card ?out"
    using fin by (intro card_Un_disjoint) auto
  ultimately show ?thesis using total by linarith
qed

(*MORE*)

end
